theory Spec2Isabelle
  imports Complex_Main "HOL-Library.Word"
begin

unbundle bit_operations_syntax

section \<open>Qt value types used by the sources\<close>

text \<open>
  \<open>QSize\<close>, \<open>QPoint\<close> and \<open>QRect\<close> as Qt stores them. A \<open>QRect\<close> keeps its two
  corner points, so \<open>width() = x2 - x1 + 1\<close>, \<open>right() = x2\<close> and \<open>setLeft\<close> moves
  \<open>x1\<close> only. Pixel coordinates are modelled as unbounded \<open>int\<close>: the sources do no
  arithmetic that depends on wrap-around.
\<close>

record QSize =
  wd :: int
  ht :: int

record QPoint =
  xp :: int
  yp :: int

record QRect =
  x1 :: int
  y1 :: int
  x2 :: int
  y2 :: int

definition qMax :: "int \<Rightarrow> int \<Rightarrow> int" where
  "qMax a b = (if a < b then b else a)"

definition qMin :: "int \<Rightarrow> int \<Rightarrow> int" where
  "qMin a b = (if a < b then a else b)"

definition qBound :: "int \<Rightarrow> int \<Rightarrow> int \<Rightarrow> int" where
  "qBound mn val mx = qMax mn (qMin mx val)"

definition qAbs :: "int \<Rightarrow> int" where
  "qAbs t = (if t \<ge> 0 then t else - t)"

definition expandedTo :: "QSize \<Rightarrow> QSize \<Rightarrow> QSize" where
  "expandedTo s other = \<lparr> wd = qMax (wd s) (wd other), ht = qMax (ht s) (ht other) \<rparr>"

definition rect_left :: "QRect \<Rightarrow> int" where "rect_left r = x1 r"
definition rect_top :: "QRect \<Rightarrow> int" where "rect_top r = y1 r"
definition rect_right :: "QRect \<Rightarrow> int" where "rect_right r = x2 r"
definition rect_bottom :: "QRect \<Rightarrow> int" where "rect_bottom r = y2 r"
definition rect_width :: "QRect \<Rightarrow> int" where "rect_width r = x2 r - x1 r + 1"
definition rect_height :: "QRect \<Rightarrow> int" where "rect_height r = y2 r - y1 r + 1"

definition setLeft :: "int \<Rightarrow> QRect \<Rightarrow> QRect" where "setLeft v r = r\<lparr> x1 := v \<rparr>"
definition setTop :: "int \<Rightarrow> QRect \<Rightarrow> QRect" where "setTop v r = r\<lparr> y1 := v \<rparr>"
definition setRight :: "int \<Rightarrow> QRect \<Rightarrow> QRect" where "setRight v r = r\<lparr> x2 := v \<rparr>"
definition setBottom :: "int \<Rightarrow> QRect \<Rightarrow> QRect" where "setBottom v r = r\<lparr> y2 := v \<rparr>"

definition marginsAdded :: "int \<Rightarrow> int \<Rightarrow> int \<Rightarrow> int \<Rightarrow> QRect \<Rightarrow> QRect" where
  \<comment> \<open>\<open>QRect::marginsAdded(QMargins(left, top, right, bottom))\<close>\<close>
  "marginsAdded l t r b rc =
     \<lparr> x1 = x1 rc - l, y1 = y1 rc - t, x2 = x2 rc + r, y2 = y2 rc + b \<rparr>"

definition rect_contains :: "QRect \<Rightarrow> QPoint \<Rightarrow> bool" where
  \<comment> \<open>\<open>QRect::contains(p)\<close> with \<open>proper = false\<close>; Qt swaps the corners of a rectangle
      stored the wrong way round.\<close>
  "rect_contains r p =
     (let (l, rgt) = (if x2 r < x1 r - 1 then (x2 r, x1 r) else (x1 r, x2 r));
          (t, bot) = (if y2 r < y1 r - 1 then (y2 r, y1 r) else (y1 r, y2 r))
      in \<not> (xp p < l \<or> xp p > rgt) \<and> \<not> (yp p < t \<or> yp p > bot))"

section \<open>The widget a handler or a layout item looks at\<close>

text \<open>
  The fields of a \<open>QWidget\<close> that the three sources read or write. \<open>width()\<close> and
  \<open>height()\<close> are those of \<open>geometry()\<close>, and \<open>rect()\<close> is the geometry moved to the
  origin, as in Qt.
\<close>

datatype CursorShape = ArrowCursor | SizeFDiagCursor | SizeBDiagCursor | SizeVerCursor | SizeHorCursor

record QWidget =
  geometry :: QRect
  minimumSize :: QSize
  maximumSize :: QSize
  minimumSizeHint :: QSize
  isMaximized :: bool
  cursor :: CursorShape
  mouseGrabbed :: bool
  keyboardGrabbed :: bool

definition width :: "QWidget \<Rightarrow> int" where "width w = rect_width (geometry w)"
definition height :: "QWidget \<Rightarrow> int" where "height w = rect_height (geometry w)"
definition minimumWidth :: "QWidget \<Rightarrow> int" where "minimumWidth w = wd (minimumSize w)"
definition minimumHeight :: "QWidget \<Rightarrow> int" where "minimumHeight w = ht (minimumSize w)"
definition maximumWidth :: "QWidget \<Rightarrow> int" where "maximumWidth w = wd (maximumSize w)"
definition maximumHeight :: "QWidget \<Rightarrow> int" where "maximumHeight w = ht (maximumSize w)"

definition widget_rect :: "QWidget \<Rightarrow> QRect" where
  "widget_rect w = \<lparr> x1 = 0, y1 = 0, x2 = width w - 1, y2 = height w - 1 \<rparr>"

definition mapFromGlobal :: "QWidget \<Rightarrow> QPoint \<Rightarrow> QPoint" where
  \<comment> \<open>the handler's target is a window: its geometry is in global coordinates\<close>
  "mapFromGlobal w p = \<lparr> xp = xp p - x1 (geometry w), yp = yp p - y1 (geometry w) \<rparr>"

section \<open>GuestWidget.cpp\<close>

text \<open>
  \<open>Item::hardcodedMinimumSize\<close> is declared in a header that is not part of the sources
  at hand; every function that reads it takes it as its first argument.
\<close>

definition widgetMinSize :: "QSize \<Rightarrow> QWidget \<Rightarrow> QSize" where
  "widgetMinSize hardcodedMinimumSize w =
     (let minW = (if minimumWidth w > 0 then minimumWidth w else wd (minimumSizeHint w));
          minH = (if minimumHeight w > 0 then minimumHeight w else ht (minimumSizeHint w))
      in expandedTo \<lparr> wd = minW, ht = minH \<rparr> hardcodedMinimumSize)"

definition minSize :: "QSize \<Rightarrow> QWidget \<Rightarrow> QSize" where
  "minSize hardcodedMinimumSize asWidget = widgetMinSize hardcodedMinimumSize asWidget"

definition maxSize :: "QWidget \<Rightarrow> QSize" where
  "maxSize asWidget = maximumSize asWidget"

definition guest_size :: "QWidget \<Rightarrow> QSize" where
  "guest_size asWidget = \<lparr> wd = width asWidget, ht = height asWidget \<rparr>"

section \<open>WidgetResizeHandler.cpp\<close>

text \<open>
  Modelled from the spec: the enumerators of \<open>CursorPosition\<close> are declared in
  \<open>WidgetResizeHandler_p.h\<close>, which is not among the sources. The spec describes the
  value as a bitmask combined from Left/Right and Top/Bottom (\<open>Left|Top\<close>,
  \<open>Right|Bottom\<close>, ...) with "undefined" for no match: four single bits, zero, and the
  four corners as the unions of their edges.
\<close>

type_synonym CursorPosition = "32 word"

definition CursorPosition_Undefined :: CursorPosition where "CursorPosition_Undefined = 0"
definition CursorPosition_Left :: CursorPosition where "CursorPosition_Left = 1"
definition CursorPosition_Right :: CursorPosition where "CursorPosition_Right = 2"
definition CursorPosition_Top :: CursorPosition where "CursorPosition_Top = 4"
definition CursorPosition_Bottom :: CursorPosition where "CursorPosition_Bottom = 8"
definition CursorPosition_TopLeft :: CursorPosition where
  "CursorPosition_TopLeft = CursorPosition_Top OR CursorPosition_Left"
definition CursorPosition_TopRight :: CursorPosition where
  "CursorPosition_TopRight = CursorPosition_Top OR CursorPosition_Right"
definition CursorPosition_BottomRight :: CursorPosition where
  "CursorPosition_BottomRight = CursorPosition_Bottom OR CursorPosition_Right"
definition CursorPosition_BottomLeft :: CursorPosition where
  "CursorPosition_BottomLeft = CursorPosition_Bottom OR CursorPosition_Left"

definition widgetResizeHandlerMargin :: int where
  "widgetResizeHandlerMargin = 4"

text \<open>
  The handler's members, with the two pieces of application state its methods touch:
  the static switch \<open>s_disableAllHandlers\<close> and the application's stack of override
  cursors. \<open>mTarget\<close> is a pointer and may be null; a method that dereferences a null
  target yields \<open>None\<close>.
\<close>

record WidgetResizeHandler =
  s_disableAllHandlers :: bool
  mFilterIsGlobal :: bool
  mTarget :: "QWidget option"
  mResizeWidget :: bool
  mNewPosition :: QPoint
  mCursorPos :: CursorPosition
  overrideCursors :: "CursorShape list"

datatype EventType = MouseButtonPress | MouseButtonRelease | MouseMove | OtherEvent

datatype MouseButton = NoButton | LeftButton | RightButton | MiddleButton

text \<open>
  An event as \<open>eventFilter\<close> reads it: its type, the global pointer position, the button
  that caused it and whether \<open>buttons()\<close> contains the left button. The watched object
  \<open>o\<close> is either no widget at all or a widget, of which the filter asks whether it is a
  top-level one and whether it is the target.
\<close>

record QMouseEvent =
  eventType :: EventType
  eventGlobalPos :: QPoint
  button :: MouseButton
  buttonsLeft :: bool

datatype Watched = NotAWidget | Widget (watchedIsTopLevel: bool) (watchedIsTarget: bool)

definition cursorPosition :: "WidgetResizeHandler \<Rightarrow> QPoint \<Rightarrow> CursorPosition" where
  "cursorPosition h globalPos =
     (case mTarget h of
        None \<Rightarrow> CursorPosition_Undefined
      | Some t \<Rightarrow>
          (let pos = mapFromGlobal t globalPos;
               x = xp pos;
               y = yp pos;
               margin = widgetResizeHandlerMargin;
               result = CursorPosition_Undefined;
               result = (if qAbs x \<le> margin then result OR CursorPosition_Left
                         else if qAbs (x - (width t - margin)) \<le> margin
                              then result OR CursorPosition_Right
                         else result);
               result = (if qAbs y \<le> margin then result OR CursorPosition_Top
                         else if qAbs (y - (height t - margin)) \<le> margin
                              then result OR CursorPosition_Bottom
                         else result)
           in result))"

definition setMouseCursor :: "CursorShape \<Rightarrow> WidgetResizeHandler \<Rightarrow> WidgetResizeHandler option" where
  "setMouseCursor c h =
     (if mFilterIsGlobal h then Some (h\<lparr> overrideCursors := c # overrideCursors h \<rparr>)
      else case mTarget h of
             None \<Rightarrow> None
           | Some t \<Rightarrow> Some (h\<lparr> mTarget := Some (t\<lparr> cursor := c \<rparr>) \<rparr>))"

definition restoreMouseCursor :: "WidgetResizeHandler \<Rightarrow> WidgetResizeHandler option" where
  "restoreMouseCursor h =
     (if mFilterIsGlobal h then Some (h\<lparr> overrideCursors := tl (overrideCursors h) \<rparr>)
      else case mTarget h of
             None \<Rightarrow> None
           | Some t \<Rightarrow> Some (h\<lparr> mTarget := Some (t\<lparr> cursor := ArrowCursor \<rparr>) \<rparr>))"

definition updateCursor :: "CursorPosition \<Rightarrow> WidgetResizeHandler \<Rightarrow> WidgetResizeHandler option" where
  \<comment> \<open>the QtWidgets build: the loop over \<open>mTarget->children()\<close> dereferences the target
      and resets the cursors of child widgets, which are not part of this state\<close>
  "updateCursor m h =
     (case mTarget h of
        None \<Rightarrow> None
      | Some t \<Rightarrow>
          if m = CursorPosition_TopLeft \<or> m = CursorPosition_BottomRight
            then setMouseCursor SizeFDiagCursor h
          else if m = CursorPosition_BottomLeft \<or> m = CursorPosition_TopRight
            then setMouseCursor SizeBDiagCursor h
          else if m = CursorPosition_Top \<or> m = CursorPosition_Bottom
            then setMouseCursor SizeVerCursor h
          else if m = CursorPosition_Left \<or> m = CursorPosition_Right
            then setMouseCursor SizeHorCursor h
          else if m = CursorPosition_Undefined
            then restoreMouseCursor h
          else Some h)"

definition setGeometry :: "QRect \<Rightarrow> QWidget \<Rightarrow> QWidget" where
  "setGeometry r w = w\<lparr> geometry := r \<rparr>"

text \<open>The two blocks of \<open>mouseMoveEvent\<close>, one per axis, each a switch on \<open>mCursorPos\<close>.\<close>

definition resizeWidthBlock :: "CursorPosition \<Rightarrow> QWidget \<Rightarrow> QPoint \<Rightarrow> QRect \<Rightarrow> QRect \<Rightarrow> QRect" where
  "resizeWidthBlock cpos t globalPos oldGeometry newGeometry =
     (let minWidth = minimumWidth t;
          maxWidth = maximumWidth t
      in if cpos = CursorPosition_TopLeft \<or> cpos = CursorPosition_Left
            \<or> cpos = CursorPosition_BottomLeft then
           (let deltaWidth = rect_left oldGeometry - xp globalPos;
                newWidth = qBound minWidth (width t + deltaWidth) maxWidth;
                deltaWidth = newWidth - width t
            in if deltaWidth \<noteq> 0 then setLeft (rect_left newGeometry - deltaWidth) newGeometry
               else newGeometry)
         else if cpos = CursorPosition_TopRight \<or> cpos = CursorPosition_Right
            \<or> cpos = CursorPosition_BottomRight then
           (let deltaWidth = xp globalPos - rect_right newGeometry;
                newWidth = qBound minWidth (width t + deltaWidth) maxWidth;
                deltaWidth = newWidth - width t
            in if deltaWidth \<noteq> 0 then setRight (rect_right oldGeometry + deltaWidth) newGeometry
               else newGeometry)
         else newGeometry)"

definition resizeHeightBlock :: "CursorPosition \<Rightarrow> QWidget \<Rightarrow> QPoint \<Rightarrow> QRect \<Rightarrow> QRect \<Rightarrow> QRect" where
  "resizeHeightBlock cpos t globalPos oldGeometry newGeometry =
     (let maxHeight = maximumHeight t;
          minHeight = minimumHeight t
      in if cpos = CursorPosition_TopLeft \<or> cpos = CursorPosition_Top
            \<or> cpos = CursorPosition_TopRight then
           (let deltaHeight = rect_top oldGeometry - yp globalPos;
                newHeight = qBound minHeight (height t + deltaHeight) maxHeight;
                deltaHeight = newHeight - height t
            in if deltaHeight \<noteq> 0 then setTop (rect_top newGeometry - deltaHeight) newGeometry
               else newGeometry)
         else if cpos = CursorPosition_BottomLeft \<or> cpos = CursorPosition_Bottom
            \<or> cpos = CursorPosition_BottomRight then
           (let deltaHeight = yp globalPos - rect_bottom newGeometry;
                newHeight = qBound minHeight (height t + deltaHeight) maxHeight;
                deltaHeight = newHeight - height t
            in if deltaHeight \<noteq> 0 then setBottom (rect_bottom oldGeometry + deltaHeight) newGeometry
               else newGeometry)
         else newGeometry)"

definition mouseMoveEvent :: "QPoint \<Rightarrow> WidgetResizeHandler \<Rightarrow> (bool \<times> WidgetResizeHandler) option" where
  "mouseMoveEvent globalPos h =
     (if \<not> mResizeWidget h then
        (let pos = cursorPosition h globalPos
         in case updateCursor pos h of
              None \<Rightarrow> None
            | Some h' \<Rightarrow> Some (pos \<noteq> CursorPosition_Undefined, h'))
      else case mTarget h of
        None \<Rightarrow> None
      | Some t \<Rightarrow>
          (let oldGeometry = geometry t;
               newGeometry = oldGeometry;
               newGeometry = resizeWidthBlock (mCursorPos h) t globalPos oldGeometry newGeometry;
               newGeometry = resizeHeightBlock (mCursorPos h) t globalPos oldGeometry newGeometry
           in Some (True,
                if newGeometry \<noteq> geometry t
                then h\<lparr> mTarget := Some (setGeometry newGeometry t) \<rparr>
                else h)))"

definition eventFilter :: "Watched \<Rightarrow> QMouseEvent \<Rightarrow> WidgetResizeHandler \<Rightarrow> (bool \<times> WidgetResizeHandler) option" where
  "eventFilter o' e h =
     (if s_disableAllHandlers h then Some (False, h)
      else case o' of
        NotAWidget \<Rightarrow> Some (False, h)
      | Widget topLevel isTarget \<Rightarrow>
          if \<not> mFilterIsGlobal h \<and> (\<not> topLevel \<or> \<not> isTarget) then Some (False, h)
          else (case eventType e of
            MouseButtonPress \<Rightarrow>
              (case mTarget h of
                 None \<Rightarrow> None
               | Some t \<Rightarrow>
                   if isMaximized t then Some (False, h)
                   else
                     (let cursorPos = cursorPosition h (eventGlobalPos e)
                      in if cursorPos = CursorPosition_Undefined then Some (False, h)
                         else
                           (let m = widgetResizeHandlerMargin;
                                widgetRect = marginsAdded m m m m (widget_rect t);
                                cursorPoint = mapFromGlobal t (eventGlobalPos e)
                            in if \<not> rect_contains widgetRect cursorPoint then Some (False, h)
                               else
                                 (let h1 = (if button e = LeftButton
                                            then h\<lparr> mResizeWidget := True \<rparr> else h)
                                  in Some (True, h1\<lparr> mNewPosition := eventGlobalPos e,
                                                      mCursorPos := cursorPos \<rparr>)))))
          | MouseButtonRelease \<Rightarrow>
              (case mTarget h of
                 None \<Rightarrow> None
               | Some t \<Rightarrow>
                   if isMaximized t then Some (False, h)
                   else if button e = LeftButton then
                     Some (True, h\<lparr> mResizeWidget := False,
                                    mTarget := Some (t\<lparr> mouseGrabbed := False,
                                                        keyboardGrabbed := False \<rparr>) \<rparr>)
                   else Some (False, h))
          | MouseMove \<Rightarrow>
              (case mTarget h of
                 None \<Rightarrow> None
               | Some t \<Rightarrow>
                   if isMaximized t then Some (False, h)
                   else
                     (let h1 = h\<lparr> mResizeWidget := (mResizeWidget h \<and> buttonsLeft e) \<rparr>;
                          state = mResizeWidget h1;
                          h2 = h1\<lparr> mResizeWidget := (isTarget \<and> mResizeWidget h1) \<rparr>
                      in case mouseMoveEvent (eventGlobalPos e) h2 of
                           None \<Rightarrow> None
                         | Some (consumed, h3) \<Rightarrow>
                             Some (consumed, h3\<lparr> mResizeWidget := state \<rparr>)))
          | OtherEvent \<Rightarrow> Some (False, h)))"

text \<open>A stream of events delivered to the filter one after the other.\<close>

fun eventFilterAll :: "(Watched \<times> QMouseEvent) list \<Rightarrow> WidgetResizeHandler \<Rightarrow> WidgetResizeHandler option" where
  "eventFilterAll [] h = Some h"
| "eventFilterAll ((o', e) # es) h =
     (case eventFilter o' e h of
        None \<Rightarrow> None
      | Some (consumed, h') \<Rightarrow> eventFilterAll es h')"

text \<open>A drag: \<open>mouseMoveEvent\<close> called for each pointer position in turn.\<close>

fun mouseMoveEvents :: "QPoint list \<Rightarrow> WidgetResizeHandler \<Rightarrow> WidgetResizeHandler option" where
  "mouseMoveEvents [] h = Some h"
| "mouseMoveEvents (p # ps) h =
     (case mouseMoveEvent p h of
        None \<Rightarrow> None
      | Some (consumed, h') \<Rightarrow> mouseMoveEvents ps h')"

section \<open>MainWindowBase.cpp: the side-bar placement heuristic\<close>

text \<open>
  Modelled from the spec: the enumerators of \<open>Layouting::Item::LayoutBorderLocation\<close>
  are declared in \<open>Item_p.h\<close>, which is not among the sources. The spec describes a
  bitset over North, East, West and South with the derived combinations All, Verticals
  (East and West), Horizontals (North and South) and None. A set of borders is a
  \<open>QFlags\<close> value, that is an \<open>int\<close>.
\<close>

datatype SideBarLocation =
  SideBarLocation_None | SideBarLocation_North | SideBarLocation_East
  | SideBarLocation_West | SideBarLocation_South

type_synonym LayoutBorderLocations = "32 word"

definition LayoutBorderLocation_None :: LayoutBorderLocations where "LayoutBorderLocation_None = 0"
definition LayoutBorderLocation_North :: LayoutBorderLocations where "LayoutBorderLocation_North = 1"
definition LayoutBorderLocation_East :: LayoutBorderLocations where "LayoutBorderLocation_East = 2"
definition LayoutBorderLocation_West :: LayoutBorderLocations where "LayoutBorderLocation_West = 4"
definition LayoutBorderLocation_South :: LayoutBorderLocations where "LayoutBorderLocation_South = 8"
definition LayoutBorderLocation_All :: LayoutBorderLocations where
  "LayoutBorderLocation_All = LayoutBorderLocation_North OR LayoutBorderLocation_East
      OR LayoutBorderLocation_West OR LayoutBorderLocation_South"
definition LayoutBorderLocation_Verticals :: LayoutBorderLocations where
  "LayoutBorderLocation_Verticals = LayoutBorderLocation_West OR LayoutBorderLocation_East"
definition LayoutBorderLocation_Horizontals :: LayoutBorderLocations where
  "LayoutBorderLocation_Horizontals = LayoutBorderLocation_North OR LayoutBorderLocation_South"

text \<open>
  \<open>dw->width() / (dw->height() * 1.0)\<close> is a division of doubles. The heuristic only
  compares the quotient with \<open>1.0\<close>, and rounding a quotient of two \<open>int\<close>s to a double
  never moves it across \<open>1.0\<close>, so the finite case carries the exact quotient. A zero
  height does not trap: the quotient is an infinity or not a number, and every comparison
  with not-a-number is false.
\<close>

datatype qreal = Finite real | PlusInfinity | MinusInfinity | NaN

definition qreal_div :: "int \<Rightarrow> int \<Rightarrow> qreal" where
  "qreal_div a b =
     (if b = 0 then (if a > 0 then PlusInfinity else if a < 0 then MinusInfinity else NaN)
      else Finite (real_of_int a / real_of_int b))"

fun qreal_gt :: "qreal \<Rightarrow> real \<Rightarrow> bool" where
  "qreal_gt (Finite r) c = (r > c)"
| "qreal_gt PlusInfinity c = True"
| "qreal_gt MinusInfinity c = False"
| "qreal_gt NaN c = False"

text \<open>
  \<open>preferredSideBar\<close> reads the layout item of the dock widget's frame (a null pointer
  when the layout has none), the borders that item touches, and the dock widget's width
  and height. Every function that can call \<open>qWarning\<close> returns the warnings with its
  result.
\<close>

record Item =
  adjacentLayoutBorders :: LayoutBorderLocations

definition opposedSideBarLocationForBorder :: "LayoutBorderLocations \<Rightarrow> string list \<times> SideBarLocation" where
  "opposedSideBarLocationForBorder loc =
     (if loc = LayoutBorderLocation_North then ([], SideBarLocation_South)
      else if loc = LayoutBorderLocation_East then ([], SideBarLocation_West)
      else if loc = LayoutBorderLocation_West then ([], SideBarLocation_East)
      else if loc = LayoutBorderLocation_South then ([], SideBarLocation_North)
      else ([''Unknown loc''], SideBarLocation_None))"

definition sideBarLocationForBorder :: "LayoutBorderLocations \<Rightarrow> SideBarLocation" where
  "sideBarLocationForBorder loc =
     (if loc = LayoutBorderLocation_North then SideBarLocation_North
      else if loc = LayoutBorderLocation_East then SideBarLocation_East
      else if loc = LayoutBorderLocation_West then SideBarLocation_West
      else if loc = LayoutBorderLocation_South then SideBarLocation_South
      else SideBarLocation_None)"

fun touchingThreeBorders :: "LayoutBorderLocations \<Rightarrow> LayoutBorderLocations list \<Rightarrow> (string list \<times> SideBarLocation) option" where
  "touchingThreeBorders borders [] = None"
| "touchingThreeBorders borders (borderLoc # rest) =
     (if borders = (LayoutBorderLocation_All AND NOT borderLoc)
      then Some (opposedSideBarLocationForBorder borderLoc)
      else touchingThreeBorders borders rest)"

definition preferredSideBar :: "Item option \<Rightarrow> int \<Rightarrow> int \<Rightarrow> string list \<times> SideBarLocation" where
  "preferredSideBar item dw_width dw_height =
     (case item of
        None \<Rightarrow> ([''No item for dock widget''], SideBarLocation_None)
      | Some it \<Rightarrow>
          (let borders = adjacentLayoutBorders it;
               aspectRatio = qreal_div dw_width dw_height
           in if borders = LayoutBorderLocation_All then
                ([], if qreal_gt aspectRatio 1.0 then SideBarLocation_South else SideBarLocation_East)
              else case touchingThreeBorders borders
                     [LayoutBorderLocation_North, LayoutBorderLocation_East,
                      LayoutBorderLocation_West, LayoutBorderLocation_South] of
                Some r \<Rightarrow> r
              | None \<Rightarrow>
                  if (borders AND LayoutBorderLocation_Verticals) = LayoutBorderLocation_Verticals
                    then ([], SideBarLocation_South)
                  else if (borders AND LayoutBorderLocation_Horizontals) = LayoutBorderLocation_Horizontals
                    then ([], SideBarLocation_East)
                  else if borders = (LayoutBorderLocation_West OR LayoutBorderLocation_South) then
                    ([], if qreal_gt aspectRatio 1.0 then SideBarLocation_South else SideBarLocation_West)
                  else if borders = (LayoutBorderLocation_East OR LayoutBorderLocation_South) then
                    ([], if qreal_gt aspectRatio 1.0 then SideBarLocation_South else SideBarLocation_East)
                  else if borders = (LayoutBorderLocation_West OR LayoutBorderLocation_North) then
                    ([], if qreal_gt aspectRatio 1.0 then SideBarLocation_North else SideBarLocation_West)
                  else if borders = (LayoutBorderLocation_East OR LayoutBorderLocation_North) then
                    ([], if qreal_gt aspectRatio 1.0 then SideBarLocation_North else SideBarLocation_East)
                  else
                    (let loc = sideBarLocationForBorder borders
                     in if loc \<noteq> SideBarLocation_None then ([], loc)
                        else ([], if qreal_gt aspectRatio 1.0 then SideBarLocation_South
                                  else SideBarLocation_West))))"

section \<open>MainWindowBase.cpp: side bars, the overlay and persistence\<close>

text \<open>
  A dock widget is known by its identity (the \<open>DockWidgetBase *\<close>); a pointer that may
  be null is an \<open>option\<close>. The main window keeps one side bar per location (a null
  pointer where the location has none), the dock widget that is overlayed, if any, and
  the frames that currently exist, each with the dock widgets it is parent of.
\<close>

type_synonym DockWidget = nat
type_synonym FrameId = nat

record QMargins =
  m_left :: int
  m_top :: int
  m_right :: int
  m_bottom :: int

text \<open>
  Modelled from the spec: \<open>SideBar\<close> (\<open>SideBar.cpp\<close>) is not among the sources. The spec
  has it hold "an ordered sequence of minimized panel identifiers", \<open>moveToSideBar\<close>
  "appends to target sidebar's ordered list", \<open>restoreFromSideBar\<close> "removes from sidebar
  list", and its snapshot is the "ordered panel-name list". Its size, position and
  visibility are what \<open>rectForOverlay\<close> reads of it.
\<close>

record SideBar =
  m_dockWidgets :: "DockWidget list"
  sb_isVisible :: bool
  sb_width :: int
  sb_height :: int
  sb_mapTo_y :: int

definition containsDockWidget :: "SideBar \<Rightarrow> DockWidget option \<Rightarrow> bool" where
  "containsDockWidget sb dw = (case dw of None \<Rightarrow> False | Some d \<Rightarrow> d \<in> set (m_dockWidgets sb))"

definition sb_addDockWidget :: "DockWidget \<Rightarrow> SideBar \<Rightarrow> SideBar" where
  "sb_addDockWidget dw sb = sb\<lparr> m_dockWidgets := m_dockWidgets sb @ [dw] \<rparr>"

definition sb_removeDockWidget :: "DockWidget option \<Rightarrow> SideBar \<Rightarrow> SideBar" where
  "sb_removeDockWidget dw sb =
     (case dw of
        None \<Rightarrow> sb
      | Some d \<Rightarrow> sb\<lparr> m_dockWidgets := removeAll d (m_dockWidgets sb) \<rparr>)"

definition sb_clear :: "SideBar \<Rightarrow> SideBar" where
  "sb_clear sb = sb\<lparr> m_dockWidgets := [] \<rparr>"

definition sb_serialize :: "(DockWidget \<Rightarrow> string) \<Rightarrow> SideBar \<Rightarrow> string list" where
  "sb_serialize uniqueName sb = map uniqueName (m_dockWidgets sb)"

definition sb_isEmpty :: "SideBar \<Rightarrow> bool" where
  "sb_isEmpty sb = (m_dockWidgets sb = [])"

text \<open>
  Modelled from the spec: \<open>Frame\<close> and the widget factory are not among the sources. The
  spec calls the overlay's frame "a transient container" that the orchestrator creates,
  shows, and destroys when the overlay is cleared. A frame is created empty and hidden
  with a fresh identity; adding a dock widget makes the frame its parent (and so takes
  it out of any frame it was in); \<open>setParent(nullptr)\<close> takes it out of its frame.
\<close>

record Frame =
  frameId :: FrameId
  isOverlayed :: bool
  frameWidgets :: "DockWidget list"
  frameGeometry :: QRect
  frameShown :: bool

datatype Output = qWarning string | isOverlayedChanged DockWidget bool

record ('l, 's) LayoutSaver_MainWindow =
  mw_options :: "32 word"
  mw_geometry :: QRect
  mw_isVisible :: bool
  mw_uniqueName :: string
  mw_screenIndex :: int
  mw_screenSize :: QSize
  mw_multiSplitterLayout :: 's
  mw_affinities :: "string list"
  mw_dockWidgetsPerSideBar :: "SideBarLocation \<rightharpoonup> string list"

text \<open>
  The main window with its private part. \<open>window_geometry\<close>, \<open>isVisible\<close>,
  \<open>screenIndex\<close> and \<open>screenSize\<close> are what \<open>serialize\<close> reads of the widget;
  \<open>dropArea\<close> is the layout that \<open>m_dropArea\<close> holds.
\<close>

record 'l MainWindowBase =
  name :: string
  affinities :: "string list"
  m_options :: "32 word"
  m_overlayedDockWidget :: "DockWidget option"
  dropArea :: 'l
  sideBar :: "SideBarLocation \<Rightarrow> SideBar option"
  frames :: "Frame list"
  nextFrameId :: FrameId
  window_geometry :: QRect
  isVisible :: bool
  screenIndex :: int
  screenSize :: QSize

text \<open>
  What the main window asks of classes that are not among the sources: the geometry of
  its central area and the margins of its centre widget (virtual functions of the
  subclass), a frame's minimum size, the dock registry's lookup by unique name, a dock
  widget's unique name, and the drop area's own \<open>serialize\<close> and \<open>deserialize\<close>, of
  which only the effect on the drop area is known.
\<close>

record ('l, 's) Collaborators =
  centralAreaGeometry :: QRect
  centerWidgetMargins :: QMargins
  frame_minSize :: "Frame \<Rightarrow> QSize"
  dockByName :: "string \<Rightarrow> DockWidget option"
  uniqueName :: "DockWidget \<Rightarrow> string"
  dropArea_serialize :: "'l \<Rightarrow> 's"
  dropArea_deserialize :: "'s \<Rightarrow> 'l \<Rightarrow> bool \<times> 'l"

definition null_rect :: QRect where
  "null_rect = \<lparr> x1 = 0, y1 = 0, x2 = - 1, y2 = - 1 \<rparr>"

definition setHeight :: "int \<Rightarrow> QRect \<Rightarrow> QRect" where "setHeight h r = r\<lparr> y2 := y1 r + h - 1 \<rparr>"
definition setWidth :: "int \<Rightarrow> QRect \<Rightarrow> QRect" where "setWidth w r = r\<lparr> x2 := x1 r + w - 1 \<rparr>"
definition moveLeft :: "int \<Rightarrow> QRect \<Rightarrow> QRect" where
  "moveLeft pos r = r\<lparr> x2 := x2 r + (pos - x1 r), x1 := pos \<rparr>"
definition moveTop :: "int \<Rightarrow> QRect \<Rightarrow> QRect" where
  "moveTop pos r = r\<lparr> y2 := y2 r + (pos - y1 r), y1 := pos \<rparr>"

definition rectForOverlay ::
  "('l, 's) Collaborators \<Rightarrow> 'l MainWindowBase \<Rightarrow> Frame \<Rightarrow> SideBarLocation \<Rightarrow> QRect" where
  "rectForOverlay env q frame location =
     (case sideBar q location of
        None \<Rightarrow> null_rect
      | Some sb \<Rightarrow>
          (let centralAreaGeo = centralAreaGeometry env;
               margins = centerWidgetMargins env;
               rect = null_rect;
               margin = 1
           in if location = SideBarLocation_North \<or> location = SideBarLocation_South then
                (let leftSideBarWidth =
                       (case sideBar q SideBarLocation_West of
                          Some l \<Rightarrow> if sb_isVisible l then sb_width l else 0 | None \<Rightarrow> 0);
                     rightSideBarWidth =
                       (case sideBar q SideBarLocation_East of
                          Some r \<Rightarrow> if sb_isVisible r then sb_width r else 0 | None \<Rightarrow> 0);
                     rect = setHeight (qMax 300 (ht (frame_minSize env frame))) rect;
                     rect = setWidth (rect_width centralAreaGeo - margin * 2
                                      - leftSideBarWidth - rightSideBarWidth) rect;
                     rect = moveLeft (margin + leftSideBarWidth) rect
                 in if location = SideBarLocation_South
                    then moveTop (rect_bottom centralAreaGeo - m_bottom margins
                                  - rect_height rect - sb_height sb) rect
                    else moveTop (y1 centralAreaGeo + sb_height sb + m_top margins) rect)
              else if location = SideBarLocation_West \<or> location = SideBarLocation_East then
                (let topSideBarHeight =
                       (case sideBar q SideBarLocation_North of
                          Some t \<Rightarrow> if sb_isVisible t then sb_height t else 0 | None \<Rightarrow> 0);
                     bottomSideBarHeight =
                       (case sideBar q SideBarLocation_South of
                          Some b \<Rightarrow> if sb_isVisible b then sb_height b else 0 | None \<Rightarrow> 0);
                     rect = setWidth (qMax 300 (wd (frame_minSize env frame))) rect;
                     rect = setHeight (rect_height centralAreaGeo - topSideBarHeight
                                       - bottomSideBarHeight - m_top margins - m_bottom margins) rect;
                     rect = moveTop (sb_mapTo_y sb + topSideBarHeight - 1) rect
                 in if location = SideBarLocation_East
                    then moveLeft (rect_width centralAreaGeo - rect_width rect - sb_width sb
                                   - m_right margins - margin) rect
                    else moveLeft (margin + x1 centralAreaGeo + m_left margins + sb_width sb) rect)
              else rect))"

text \<open>The frame a dock widget is in (\<open>dw->frame()\<close>), and the frame operations.\<close>

definition dw_frame :: "'l MainWindowBase \<Rightarrow> DockWidget \<Rightarrow> Frame option" where
  "dw_frame q dw = find (\<lambda>f. dw \<in> set (frameWidgets f)) (frames q)"

definition dw_setParent_null :: "DockWidget \<Rightarrow> 'l MainWindowBase \<Rightarrow> 'l MainWindowBase" where
  "dw_setParent_null dw q =
     q\<lparr> frames := map (\<lambda>f. f\<lparr> frameWidgets := removeAll dw (frameWidgets f) \<rparr>) (frames q) \<rparr>"

definition createFrame :: "bool \<Rightarrow> 'l MainWindowBase \<Rightarrow> FrameId \<times> 'l MainWindowBase" where
  "createFrame overlayed q =
     (nextFrameId q,
      q\<lparr> frames := frames q @ [\<lparr> frameId = nextFrameId q, isOverlayed = overlayed,
                                 frameWidgets = [], frameGeometry = null_rect,
                                 frameShown = False \<rparr>],
         nextFrameId := Suc (nextFrameId q) \<rparr>)"

definition frame_addWidget :: "FrameId \<Rightarrow> DockWidget \<Rightarrow> 'l MainWindowBase \<Rightarrow> 'l MainWindowBase" where
  "frame_addWidget fid dw q =
     q\<lparr> frames := map (\<lambda>f. if frameId f = fid
                            then f\<lparr> frameWidgets := removeAll dw (frameWidgets f) @ [dw] \<rparr>
                            else f\<lparr> frameWidgets := removeAll dw (frameWidgets f) \<rparr>)
                       (frames q) \<rparr>"

definition frame_setGeometry :: "FrameId \<Rightarrow> QRect \<Rightarrow> 'l MainWindowBase \<Rightarrow> 'l MainWindowBase" where
  "frame_setGeometry fid r q =
     q\<lparr> frames := map (\<lambda>f. if frameId f = fid then f\<lparr> frameGeometry := r \<rparr> else f) (frames q) \<rparr>"

definition frame_show :: "FrameId \<Rightarrow> 'l MainWindowBase \<Rightarrow> 'l MainWindowBase" where
  "frame_show fid q =
     q\<lparr> frames := map (\<lambda>f. if frameId f = fid then f\<lparr> frameShown := True \<rparr> else f) (frames q) \<rparr>"

definition delete_frame :: "FrameId \<Rightarrow> 'l MainWindowBase \<Rightarrow> 'l MainWindowBase" where
  "delete_frame fid q = q\<lparr> frames := filter (\<lambda>f. frameId f \<noteq> fid) (frames q) \<rparr>"

text \<open>
  Modelled from the spec: \<open>DockWidgetBase::setFloating\<close> is not among the sources;
  \<open>restoreFromSideBar\<close> calls \<open>setFloating(false)\<close> and the spec says that it "re-docks"
  the panel. The panel is given an ordinary frame of its own.
\<close>

definition dw_setFloating_false :: "DockWidget \<Rightarrow> 'l MainWindowBase \<Rightarrow> 'l MainWindowBase" where
  "dw_setFloating_false dw q =
     (let (fid, q1) = createFrame False q
      in frame_show fid (frame_addWidget fid dw q1))"

fun sideBarForDockWidget_loop ::
  "'l MainWindowBase \<Rightarrow> DockWidget option \<Rightarrow> SideBarLocation list \<Rightarrow> (SideBarLocation \<times> SideBar) option" where
  "sideBarForDockWidget_loop q dw [] = None"
| "sideBarForDockWidget_loop q dw (loc # locs) =
     (case sideBar q loc of
        Some sb \<Rightarrow> if containsDockWidget sb dw then Some (loc, sb)
                   else sideBarForDockWidget_loop q dw locs
      | None \<Rightarrow> sideBarForDockWidget_loop q dw locs)"

definition sideBarForDockWidget ::
  "'l MainWindowBase \<Rightarrow> DockWidget option \<Rightarrow> (SideBarLocation \<times> SideBar) option" where
  \<comment> \<open>the side bar found, with its location (\<open>sb->location()\<close>)\<close>
  "sideBarForDockWidget q dw =
     sideBarForDockWidget_loop q dw
       [SideBarLocation_North, SideBarLocation_South, SideBarLocation_East, SideBarLocation_West]"

definition updateOverlayGeometry ::
  "('l, 's) Collaborators \<Rightarrow> 'l MainWindowBase \<Rightarrow> (Output list \<times> 'l MainWindowBase) option" where
  "updateOverlayGeometry env q =
     (case m_overlayedDockWidget q of
        None \<Rightarrow> Some ([], q)
      | Some dw \<Rightarrow>
          (case sideBarForDockWidget q (Some dw) of
             None \<Rightarrow> Some ([qWarning ''Expected a sidebar''], q)
           | Some (location, sb) \<Rightarrow>
               (case dw_frame q dw of
                  None \<Rightarrow> None
                | Some frame \<Rightarrow>
                    Some ([], frame_setGeometry (frameId frame)
                                (rectForOverlay env q frame location) q))))"

definition clearSideBars_body :: "SideBarLocation \<Rightarrow> 'l MainWindowBase \<Rightarrow> 'l MainWindowBase" where
  "clearSideBars_body loc q =
     (case sideBar q loc of
        Some sb \<Rightarrow> q\<lparr> sideBar := (sideBar q)(loc := Some (sb_clear sb)) \<rparr>
      | None \<Rightarrow> q)"

definition clearSideBars :: "'l MainWindowBase \<Rightarrow> 'l MainWindowBase" where
  "clearSideBars q =
     fold clearSideBars_body
       [SideBarLocation_North, SideBarLocation_South, SideBarLocation_East, SideBarLocation_West] q"

definition clearSideBarOverlay :: "'l MainWindowBase \<Rightarrow> Output list \<times> 'l MainWindowBase" where
  "clearSideBarOverlay q =
     (case m_overlayedDockWidget q of
        None \<Rightarrow> ([], q)
      | Some dw \<Rightarrow>
          (let frame = dw_frame q dw;
               q1 = dw_setParent_null dw q;
               q2 = q1\<lparr> m_overlayedDockWidget := None \<rparr>
           in ([isOverlayedChanged dw False],
               case frame of None \<Rightarrow> q2 | Some f \<Rightarrow> delete_frame (frameId f) q2)))"

definition overlayOnSideBar ::
  "('l, 's) Collaborators \<Rightarrow> DockWidget option \<Rightarrow> 'l MainWindowBase
     \<Rightarrow> (Output list \<times> 'l MainWindowBase) option" where
  "overlayOnSideBar env dw q =
     (case dw of
        None \<Rightarrow> Some ([], q)
      | Some d \<Rightarrow>
          (case sideBarForDockWidget q dw of
             None \<Rightarrow> Some ([qWarning ''You need to add the dock widget to the sidebar before you can overlay it''], q)
           | Some sb \<Rightarrow>
               if m_overlayedDockWidget q = dw then Some ([], q)
               else
                 (let (out1, q1) = clearSideBarOverlay q;
                      (frame, q2) = createFrame True q1;
                      q3 = q2\<lparr> m_overlayedDockWidget := dw \<rparr>;
                      q4 = frame_addWidget frame d q3
                  in case updateOverlayGeometry env q4 of
                       None \<Rightarrow> None
                     | Some (out2, q5) \<Rightarrow>
                         Some (out1 @ out2 @ [isOverlayedChanged d True], frame_show frame q5))))"

definition toggleOverlayOnSideBar ::
  "('l, 's) Collaborators \<Rightarrow> DockWidget option \<Rightarrow> 'l MainWindowBase
     \<Rightarrow> (Output list \<times> 'l MainWindowBase) option" where
  "toggleOverlayOnSideBar env dw q =
     (let wasOverlayed = (m_overlayedDockWidget q = dw);
          (out1, q1) = clearSideBarOverlay q
      in if \<not> wasOverlayed then
           (case overlayOnSideBar env dw q1 of
              None \<Rightarrow> None
            | Some (out2, q2) \<Rightarrow> Some (out1 @ out2, q2))
         else Some (out1, q1))"

definition restoreFromSideBar ::
  "DockWidget option \<Rightarrow> 'l MainWindowBase \<Rightarrow> (Output list \<times> 'l MainWindowBase) option" where
  "restoreFromSideBar dw q =
     (let (out1, q1) = (if dw = m_overlayedDockWidget q then clearSideBarOverlay q else ([], q))
      in case sideBarForDockWidget q1 dw of
           None \<Rightarrow> Some (out1 @ [qWarning ''Dock widget isn't in any sidebar''], q1)
         | Some (loc, sb) \<Rightarrow>
             (let q2 = q1\<lparr> sideBar := (sideBar q1)(loc := Some (sb_removeDockWidget dw sb)) \<rparr>
              in case dw of
                   None \<Rightarrow> None
                 | Some d \<Rightarrow> Some (out1, dw_setFloating_false d q2)))"

definition onResized :: "('l, 's) Collaborators \<Rightarrow> 'l MainWindowBase \<Rightarrow> (Output list \<times> 'l MainWindowBase) option" where
  "onResized env q =
     (if m_overlayedDockWidget q \<noteq> None then updateOverlayGeometry env q else Some ([], q))"

definition overlayedDockWidget :: "'l MainWindowBase \<Rightarrow> DockWidget option" where
  "overlayedDockWidget q = m_overlayedDockWidget q"

definition sideBarIsVisible :: "'l MainWindowBase \<Rightarrow> SideBarLocation \<Rightarrow> bool" where
  "sideBarIsVisible q loc = (case sideBar q loc of Some sb \<Rightarrow> \<not> sb_isEmpty sb | None \<Rightarrow> False)"

definition anySideBarIsVisible :: "'l MainWindowBase \<Rightarrow> bool" where
  "anySideBarIsVisible q =
     list_ex (sideBarIsVisible q)
       [SideBarLocation_North, SideBarLocation_South, SideBarLocation_East, SideBarLocation_West]"

text \<open>\<open>serialize\<close> and \<open>deserialize\<close>, with the loops over the four locations.\<close>

definition serialize_body ::
  "('l, 's) Collaborators \<Rightarrow> 'l MainWindowBase \<Rightarrow> SideBarLocation
     \<Rightarrow> ('l, 's) LayoutSaver_MainWindow \<Rightarrow> ('l, 's) LayoutSaver_MainWindow" where
  "serialize_body env q loc m =
     (case sideBar q loc of
        Some sb \<Rightarrow>
          (let dockwidgets = sb_serialize (uniqueName env) sb
           in if dockwidgets \<noteq> []
              then m\<lparr> mw_dockWidgetsPerSideBar := (mw_dockWidgetsPerSideBar m)(loc \<mapsto> dockwidgets) \<rparr>
              else m)
      | None \<Rightarrow> m)"

definition serialize ::
  "('l, 's) Collaborators \<Rightarrow> 'l MainWindowBase \<Rightarrow> ('l, 's) LayoutSaver_MainWindow" where
  "serialize env q =
     (let m = \<lparr> mw_options = m_options q,
                mw_geometry = window_geometry q,
                mw_isVisible = isVisible q,
                mw_uniqueName = name q,
                mw_screenIndex = screenIndex q,
                mw_screenSize = screenSize q,
                mw_multiSplitterLayout = dropArea_serialize env (dropArea q),
                mw_affinities = affinities q,
                mw_dockWidgetsPerSideBar = Map.empty \<rparr>
      in fold (serialize_body env q)
           [SideBarLocation_North, SideBarLocation_East, SideBarLocation_West, SideBarLocation_South]
           m)"

fun restoreSideBar ::
  "('l, 's) Collaborators \<Rightarrow> string list \<Rightarrow> SideBar \<Rightarrow> Output list \<times> SideBar" where
  "restoreSideBar env [] sb = ([], sb)"
| "restoreSideBar env (n # ns) sb =
     (case dockByName env n of
        None \<Rightarrow>
          (let (out, sb') = restoreSideBar env ns sb
           in (qWarning (''Could not find dock widget '' @ n @ ''. Won't restore it to sidebar'') # out, sb'))
      | Some dw \<Rightarrow> restoreSideBar env ns (sb_addDockWidget dw sb))"

definition deserialize_body ::
  "('l, 's) Collaborators \<Rightarrow> ('l, 's) LayoutSaver_MainWindow \<Rightarrow> SideBarLocation
     \<Rightarrow> Output list \<times> 'l MainWindowBase \<Rightarrow> Output list \<times> 'l MainWindowBase" where
  "deserialize_body env mw loc acc =
     (case acc of (out, q) \<Rightarrow>
        (case sideBar q loc of
           None \<Rightarrow> (out, q)
         | Some sb \<Rightarrow>
             (let dockWidgets = (case mw_dockWidgetsPerSideBar mw loc of
                                   Some ns \<Rightarrow> ns | None \<Rightarrow> []);
                  (out', sb') = restoreSideBar env dockWidgets sb
              in (out @ out', q\<lparr> sideBar := (sideBar q)(loc := Some sb') \<rparr>))))"

definition deserialize ::
  "('l, 's) Collaborators \<Rightarrow> ('l, 's) LayoutSaver_MainWindow \<Rightarrow> 'l MainWindowBase
     \<Rightarrow> Output list \<times> bool \<times> 'l MainWindowBase" where
  "deserialize env mw q =
     (if mw_options mw \<noteq> m_options q then
        ([qWarning ''Refusing to restore MainWindow with different options''], False, q)
      else
        (let (out1, q1) =
               (if affinities q \<noteq> mw_affinities mw
                then ([qWarning ''Affinty name changed''], q\<lparr> affinities := mw_affinities mw \<rparr>)
                else ([], q));
             (success, layout) = dropArea_deserialize env (mw_multiSplitterLayout mw) (dropArea q1);
             q2 = q1\<lparr> dropArea := layout \<rparr>;
             q3 = clearSideBars q2;
             (out2, q4) =
               fold (deserialize_body env mw)
                 [SideBarLocation_North, SideBarLocation_East, SideBarLocation_West, SideBarLocation_South]
                 ([], q3)
         in (out1 @ out2, success, q4)))"

section \<open>Vocabulary of the properties\<close>

subsection \<open>Resize handler\<close>

text \<open>A widget whose size respects its own minimum and maximum size, on both axes.\<close>

definition withinConstraints :: "QWidget \<Rightarrow> bool" where
  "withinConstraints t =
     (minimumWidth t \<le> width t \<and> width t \<le> maximumWidth t
      \<and> minimumHeight t \<le> height t \<and> height t \<le> maximumHeight t)"

text \<open>The edge a drag is pinned to, per axis: the case labels of the two switches.\<close>

definition dragsLeft :: "CursorPosition \<Rightarrow> bool" where
  "dragsLeft c = (c = CursorPosition_TopLeft \<or> c = CursorPosition_Left \<or> c = CursorPosition_BottomLeft)"

definition dragsRight :: "CursorPosition \<Rightarrow> bool" where
  "dragsRight c = (c = CursorPosition_TopRight \<or> c = CursorPosition_Right \<or> c = CursorPosition_BottomRight)"

definition dragsTop :: "CursorPosition \<Rightarrow> bool" where
  "dragsTop c = (c = CursorPosition_TopLeft \<or> c = CursorPosition_Top \<or> c = CursorPosition_TopRight)"

definition dragsBottom :: "CursorPosition \<Rightarrow> bool" where
  "dragsBottom c = (c = CursorPosition_BottomLeft \<or> c = CursorPosition_Bottom \<or> c = CursorPosition_BottomRight)"

text \<open>The geometry that \<open>mouseMoveEvent\<close> hands to \<open>setGeometry\<close> during a drag.\<close>

definition draggedGeometry :: "CursorPosition \<Rightarrow> QWidget \<Rightarrow> QPoint \<Rightarrow> QRect" where
  "draggedGeometry c t p =
     resizeHeightBlock c t p (geometry t) (resizeWidthBlock c t p (geometry t) (geometry t))"

definition sameShape :: "QWidget \<Rightarrow> QWidget \<Rightarrow> bool" where
  "sameShape t' t = (geometry t' = geometry t \<and> minimumSize t' = minimumSize t
                     \<and> maximumSize t' = maximumSize t)"

text \<open>
  The zones that \<open>cursorPosition\<close> tests, in the target's own coordinates: on each axis
  the near zone reaches 4 pixels to either side of the near boundary (coordinate 0), and
  the far zone is centred 4 pixels inside the far boundary, so it reaches from 8 pixels
  inside the far boundary up to the boundary itself.
\<close>

definition horizontalZone :: "QWidget \<Rightarrow> int \<Rightarrow> CursorPosition" where
  "horizontalZone t x =
     (if - 4 \<le> x \<and> x \<le> 4 then CursorPosition_Left
      else if width t - 8 \<le> x \<and> x \<le> width t then CursorPosition_Right
      else CursorPosition_Undefined)"

definition verticalZone :: "QWidget \<Rightarrow> int \<Rightarrow> CursorPosition" where
  "verticalZone t y =
     (if - 4 \<le> y \<and> y \<le> 4 then CursorPosition_Top
      else if height t - 8 \<le> y \<and> y \<le> height t then CursorPosition_Bottom
      else CursorPosition_Undefined)"

text \<open>
  The classification in the spec's words: a pointer matches a boundary when it is
  within the fixed margin of 4 pixels of that boundary; left is tried before right and
  top before bottom, and the matches are combined as a bitmask.
\<close>

definition withinMarginOf :: "int \<Rightarrow> int \<Rightarrow> bool" where
  "withinMarginOf boundary c = (qAbs (c - boundary) \<le> widgetResizeHandlerMargin)"

definition cursorPosition_spec :: "WidgetResizeHandler \<Rightarrow> QPoint \<Rightarrow> CursorPosition" where
  "cursorPosition_spec h globalPos =
     (case mTarget h of
        None \<Rightarrow> CursorPosition_Undefined
      | Some t \<Rightarrow>
          (let pos = mapFromGlobal t globalPos
           in (if withinMarginOf 0 (xp pos) then CursorPosition_Left
               else if withinMarginOf (width t) (xp pos) then CursorPosition_Right
               else CursorPosition_Undefined)
              OR
              (if withinMarginOf 0 (yp pos) then CursorPosition_Top
               else if withinMarginOf (height t) (yp pos) then CursorPosition_Bottom
               else CursorPosition_Undefined)))"

text \<open>
  A window of 200 by 150 pixels at (100, 100) that may be between 100 by 100 and 400 by
  300 pixels, and a handler for it in the middle of a drag of the bottom right corner.
\<close>

definition exampleTarget :: QWidget where
  "exampleTarget =
     \<lparr> geometry = \<lparr> x1 = 100, y1 = 100, x2 = 299, y2 = 249 \<rparr>,
       minimumSize = \<lparr> wd = 100, ht = 100 \<rparr>,
       maximumSize = \<lparr> wd = 400, ht = 300 \<rparr>,
       minimumSizeHint = \<lparr> wd = - 1, ht = - 1 \<rparr>,
       isMaximized = False, cursor = ArrowCursor,
       mouseGrabbed = False, keyboardGrabbed = False \<rparr>"

definition exampleHandler :: WidgetResizeHandler where
  "exampleHandler =
     \<lparr> s_disableAllHandlers = False, mFilterIsGlobal = False,
       mTarget = Some exampleTarget, mResizeWidget = True,
       mNewPosition = \<lparr> xp = 299, yp = 249 \<rparr>,
       mCursorPos = CursorPosition_BottomRight, overrideCursors = [] \<rparr>"

subsection \<open>Side-bar placement\<close>

text \<open>
  The rule table of the spec, written from its words: which of the four borders are
  touched, how many, and whether the aspect ratio exceeds 1.0. Rule 1 is all four
  borders; rule 2 the four cases of exactly three; rules 3 and 4 exactly the two vertical
  or the two horizontal borders; rule 5 the four corners; rule 6 a single border; rule 7
  none.
\<close>

definition touches :: "LayoutBorderLocations \<Rightarrow> LayoutBorderLocations \<Rightarrow> bool" where
  "touches borders edge = (borders AND edge \<noteq> 0)"

definition preferredLocation_rules :: "LayoutBorderLocations \<Rightarrow> qreal \<Rightarrow> SideBarLocation" where
  "preferredLocation_rules borders aspectRatio =
     (let n = touches borders LayoutBorderLocation_North;
          e = touches borders LayoutBorderLocation_East;
          w = touches borders LayoutBorderLocation_West;
          s = touches borders LayoutBorderLocation_South;
          wide = qreal_gt aspectRatio 1.0
      in if n \<and> e \<and> w \<and> s then (if wide then SideBarLocation_South else SideBarLocation_East)
         else if \<not> n \<and> e \<and> w \<and> s then SideBarLocation_South
         else if n \<and> \<not> e \<and> w \<and> s then SideBarLocation_West
         else if n \<and> e \<and> \<not> w \<and> s then SideBarLocation_East
         else if n \<and> e \<and> w \<and> \<not> s then SideBarLocation_North
         else if \<not> n \<and> e \<and> w \<and> \<not> s then SideBarLocation_South
         else if n \<and> \<not> e \<and> \<not> w \<and> s then SideBarLocation_East
         else if \<not> n \<and> \<not> e \<and> w \<and> s then (if wide then SideBarLocation_South else SideBarLocation_West)
         else if \<not> n \<and> e \<and> \<not> w \<and> s then (if wide then SideBarLocation_South else SideBarLocation_East)
         else if n \<and> \<not> e \<and> w \<and> \<not> s then (if wide then SideBarLocation_North else SideBarLocation_West)
         else if n \<and> e \<and> \<not> w \<and> \<not> s then (if wide then SideBarLocation_North else SideBarLocation_East)
         else if n then SideBarLocation_North
         else if e then SideBarLocation_East
         else if w then SideBarLocation_West
         else if s then SideBarLocation_South
         else (if wide then SideBarLocation_South else SideBarLocation_West))"

subsection \<open>Main window\<close>

text \<open>
  A main window with a side bar at each of the four locations, two dock widgets
  minimized to the southern one, and a registry that knows both by name.
\<close>

definition exampleSideBar :: "DockWidget list \<Rightarrow> SideBar" where
  "exampleSideBar ds =
     \<lparr> m_dockWidgets = ds, sb_isVisible = True, sb_width = 30, sb_height = 30, sb_mapTo_y = 0 \<rparr>"

definition exampleCollaborators :: "(nat, nat) Collaborators" where
  "exampleCollaborators =
     \<lparr> centralAreaGeometry = \<lparr> x1 = 0, y1 = 0, x2 = 799, y2 = 599 \<rparr>,
       centerWidgetMargins = \<lparr> m_left = 1, m_top = 5, m_right = 1, m_bottom = 1 \<rparr>,
       frame_minSize = (\<lambda>f. \<lparr> wd = 80, ht = 90 \<rparr>),
       dockByName = (\<lambda>n. if n = ''dock1'' then Some 1 else if n = ''dock2'' then Some 2 else None),
       uniqueName = (\<lambda>d. if d = 1 then ''dock1'' else if d = 2 then ''dock2'' else ''unregistered''),
       dropArea_serialize = (\<lambda>l. l),
       dropArea_deserialize = (\<lambda>s l. (True, s)) \<rparr>"

definition exampleMainWindow :: "nat MainWindowBase" where
  "exampleMainWindow =
     \<lparr> name = ''MainWindow1'', affinities = [''a''], m_options = 1,
       m_overlayedDockWidget = None, dropArea = 0,
       sideBar = (\<lambda>loc. if loc = SideBarLocation_None then None
                         else if loc = SideBarLocation_South then Some (exampleSideBar [1, 2])
                         else Some (exampleSideBar [])),
       frames = [], nextFrameId = 0,
       window_geometry = \<lparr> x1 = 0, y1 = 0, x2 = 799, y2 = 599 \<rparr>,
       isVisible = True, screenIndex = 0, screenSize = \<lparr> wd = 1920, ht = 1080 \<rparr> \<rparr>"

text \<open>
  The same main window later: other affinities, other dock widgets in its side bars,
  another drop area, moved and resized, but the same options.
\<close>

definition exampleLiveWindow :: "nat MainWindowBase" where
  "exampleLiveWindow =
     \<lparr> name = ''MainWindow1'', affinities = [''b''], m_options = 1,
       m_overlayedDockWidget = None, dropArea = 7,
       sideBar = (\<lambda>loc. if loc = SideBarLocation_None then None
                         else if loc = SideBarLocation_North then Some (exampleSideBar [2, 1])
                         else if loc = SideBarLocation_South then Some (exampleSideBar [2])
                         else Some (exampleSideBar [])),
       frames = [], nextFrameId = 0,
       window_geometry = \<lparr> x1 = 50, y1 = 60, x2 = 1049, y2 = 759 \<rparr>,
       isVisible = True, screenIndex = 0, screenSize = \<lparr> wd = 1920, ht = 1080 \<rparr> \<rparr>"

text \<open>The ordered dock widgets of the side bar at a location (none where there is no side bar).\<close>

definition minimizedAt :: "'l MainWindowBase \<Rightarrow> SideBarLocation \<Rightarrow> DockWidget list" where
  "minimizedAt q loc = (case sideBar q loc of Some sb \<Rightarrow> m_dockWidgets sb | None \<Rightarrow> [])"

text \<open>
  The frames created with \<open>FrameOption_IsOverlayed\<close> that exist, and the dock widgets
  they hold: the panels that are in the Overlayed state.
\<close>

definition overlayFrames :: "'l MainWindowBase \<Rightarrow> Frame list" where
  "overlayFrames q = filter isOverlayed (frames q)"

definition overlayedPanels :: "'l MainWindowBase \<Rightarrow> DockWidget list" where
  "overlayedPanels q = concat (map frameWidgets (overlayFrames q))"

text \<open>
  A main window is consistent when its frames have distinct identities below the next
  one to be given out, no dock widget is in two frames, and the overlay frames are
  exactly what the slot \<open>m_overlayedDockWidget\<close> says: none when it is null, and one
  frame holding just that dock widget otherwise.
\<close>

definition overlayConsistent :: "'l MainWindowBase \<Rightarrow> bool" where
  "overlayConsistent q =
     (distinct (map frameId (frames q))
      \<and> list_all (\<lambda>f. frameId f < nextFrameId q) (frames q)
      \<and> distinct (concat (map frameWidgets (frames q)))
      \<and> map frameWidgets (overlayFrames q) =
          (case m_overlayedDockWidget q of None \<Rightarrow> [] | Some d \<Rightarrow> [[d]]))"

text \<open>Calls of the four operations on the overlay, and sequences of them.\<close>

datatype Call =
  Call_overlayOnSideBar "DockWidget option"
  | Call_toggleOverlayOnSideBar "DockWidget option"
  | Call_clearSideBarOverlay
  | Call_restoreFromSideBar "DockWidget option"

fun call :: "('l, 's) Collaborators \<Rightarrow> Call \<Rightarrow> 'l MainWindowBase \<Rightarrow> (Output list \<times> 'l MainWindowBase) option" where
  "call env (Call_overlayOnSideBar dw) q = overlayOnSideBar env dw q"
| "call env (Call_toggleOverlayOnSideBar dw) q = toggleOverlayOnSideBar env dw q"
| "call env Call_clearSideBarOverlay q = Some (clearSideBarOverlay q)"
| "call env (Call_restoreFromSideBar dw) q = restoreFromSideBar dw q"

fun calls :: "('l, 's) Collaborators \<Rightarrow> Call list \<Rightarrow> 'l MainWindowBase \<Rightarrow> 'l MainWindowBase option" where
  "calls env [] q = Some q"
| "calls env (c # cs) q =
     (case call env c q of
        None \<Rightarrow> None
      | Some (out, q') \<Rightarrow> calls env cs q')"

text \<open>
  What the overlay invariant reads of a frame: its identity, whether it is an overlay
  frame, and its dock widgets.
\<close>

type_synonym FrameView = "FrameId \<times> bool \<times> DockWidget list"

definition frameView :: "Frame \<Rightarrow> FrameView" where
  "frameView f = (frameId f, isOverlayed f, frameWidgets f)"

definition views :: "'l MainWindowBase \<Rightarrow> FrameView list" where
  "views q = map frameView (frames q)"

definition viewsOK :: "FrameView list \<Rightarrow> FrameId \<Rightarrow> DockWidget option \<Rightarrow> bool" where
  "viewsOK vs n slot =
     (distinct (map fst vs)
      \<and> (\<forall>v \<in> set vs. fst v < n)
      \<and> distinct (concat (map (snd \<circ> snd) vs))
      \<and> map (snd \<circ> snd) (filter (fst \<circ> snd) vs) =
          (case slot of None \<Rightarrow> [] | Some d \<Rightarrow> [[d]]))"

definition rmV :: "DockWidget \<Rightarrow> FrameView list \<Rightarrow> FrameView list" where
  "rmV d vs = map (\<lambda>(i, ov, ws). (i, ov, removeAll d ws)) vs"

text \<open>The part of \<open>restoreFromSideBar\<close> that follows the clearing of the overlay.\<close>

definition restoreFromSideBar_rest ::
  "DockWidget option \<Rightarrow> Output list \<Rightarrow> 'l MainWindowBase \<Rightarrow> (Output list \<times> 'l MainWindowBase) option" where
  "restoreFromSideBar_rest dw out1 q1 =
     (case sideBarForDockWidget q1 dw of
           None \<Rightarrow> Some (out1 @ [qWarning ''Dock widget isn't in any sidebar''], q1)
         | Some (loc, sb) \<Rightarrow>
             (let q2 = q1\<lparr> sideBar := (sideBar q1)(loc := Some (sb_removeDockWidget dw sb)) \<rparr>
              in case dw of
                   None \<Rightarrow> None
                 | Some d \<Rightarrow> Some (out1, dw_setFloating_false d q2)))"

section \<open>Properties of GuestWidget\<close>

lemma qMax_ge: "b \<le> qMax a b" "a \<le> qMax a b"
  by (simp_all add: qMax_def)

text \<open>
  C10. \<open>GuestWidget::minSize\<close> is, on each axis, the larger of the hardcoded floor and
  the widget's own minimum, where the widget's own minimum is its explicit minimum
  dimension when that is greater than 0 and its minimum size hint otherwise. Hence the
  result is componentwise at least \<open>Item::hardcodedMinimumSize\<close>, and it is positive on
  every axis on which the floor is positive, whatever the widget declares.
\<close>

theorem minSize_at_least_hardcoded:
  "wd (minSize hard w) =
     qMax (if minimumWidth w > 0 then minimumWidth w else wd (minimumSizeHint w)) (wd hard)
   \<and> ht (minSize hard w) =
     qMax (if minimumHeight w > 0 then minimumHeight w else ht (minimumSizeHint w)) (ht hard)
   \<and> wd hard \<le> wd (minSize hard w)
   \<and> ht hard \<le> ht (minSize hard w)
   \<and> (0 < wd hard \<longrightarrow> 0 < wd (minSize hard w))
   \<and> (0 < ht hard \<longrightarrow> 0 < ht (minSize hard w))"
proof -
  let ?mw = "if minimumWidth w > 0 then minimumWidth w else wd (minimumSizeHint w)"
  let ?mh = "if minimumHeight w > 0 then minimumHeight w else ht (minimumSizeHint w)"
  have W: "wd (minSize hard w) = qMax ?mw (wd hard)"
    by (simp add: minSize_def widgetMinSize_def expandedTo_def Let_def)
  have H: "ht (minSize hard w) = qMax ?mh (ht hard)"
    by (simp add: minSize_def widgetMinSize_def expandedTo_def Let_def)
  have Wle: "wd hard \<le> wd (minSize hard w)"
    unfolding W by (rule qMax_ge(1))
  have Hle: "ht hard \<le> ht (minSize hard w)"
    unfolding H by (rule qMax_ge(1))
  from W H Wle Hle show ?thesis by auto
qed

theorem minSize_at_least_hardcoded_witness:
  "wd (minSize \<lparr> wd = 80, ht = 90 \<rparr>
        \<lparr> geometry = \<lparr> x1 = 0, y1 = 0, x2 = 9, y2 = 9 \<rparr>,
          minimumSize = \<lparr> wd = 0, ht = 120 \<rparr>,
          maximumSize = \<lparr> wd = 16777215, ht = 16777215 \<rparr>,
          minimumSizeHint = \<lparr> wd = - 1, ht = - 1 \<rparr>,
          isMaximized = False, cursor = ArrowCursor,
          mouseGrabbed = False, keyboardGrabbed = False \<rparr>) = 80
   \<and> ht (minSize \<lparr> wd = 80, ht = 90 \<rparr>
        \<lparr> geometry = \<lparr> x1 = 0, y1 = 0, x2 = 9, y2 = 9 \<rparr>,
          minimumSize = \<lparr> wd = 0, ht = 120 \<rparr>,
          maximumSize = \<lparr> wd = 16777215, ht = 16777215 \<rparr>,
          minimumSizeHint = \<lparr> wd = - 1, ht = - 1 \<rparr>,
          isMaximized = False, cursor = ArrowCursor,
          mouseGrabbed = False, keyboardGrabbed = False \<rparr>) = 120"
  using minSize_at_least_hardcoded
    [of "\<lparr> wd = 80, ht = 90 \<rparr>"
        "\<lparr> geometry = \<lparr> x1 = 0, y1 = 0, x2 = 9, y2 = 9 \<rparr>,
          minimumSize = \<lparr> wd = 0, ht = 120 \<rparr>,
          maximumSize = \<lparr> wd = 16777215, ht = 16777215 \<rparr>,
          minimumSizeHint = \<lparr> wd = - 1, ht = - 1 \<rparr>,
          isMaximized = False, cursor = ArrowCursor,
          mouseGrabbed = False, keyboardGrabbed = False \<rparr>"]
  by (simp add: minimumWidth_def minimumHeight_def qMax_def)

section \<open>Properties of the resize handler\<close>

lemmas CursorPosition_defs =
  CursorPosition_Undefined_def CursorPosition_Left_def CursorPosition_Right_def
  CursorPosition_Top_def CursorPosition_Bottom_def CursorPosition_TopLeft_def
  CursorPosition_TopRight_def CursorPosition_BottomRight_def CursorPosition_BottomLeft_def

lemma eventFilter_maximized:
  "mTarget h = Some t \<Longrightarrow> isMaximized t \<Longrightarrow> eventFilter o' e h = Some (False, h)"
  by (cases o'; cases "eventType e") (simp_all add: eventFilter_def)

lemma eventFilterAll_maximized:
  "mTarget h = Some t \<Longrightarrow> isMaximized t \<Longrightarrow> eventFilterAll es h = Some h"
  by (induction es) (auto simp: eventFilter_maximized)

lemma qBound_range: "mn \<le> mx \<Longrightarrow> mn \<le> qBound mn v mx \<and> qBound mn v mx \<le> mx"
  by (simp add: qBound_def qMax_def qMin_def)

lemma drags_disjoint: "\<not> (dragsLeft c \<and> dragsRight c)" "\<not> (dragsTop c \<and> dragsBottom c)"
  by (auto simp: dragsLeft_def dragsRight_def dragsTop_def dragsBottom_def CursorPosition_defs)

lemma resizeWidthBlock_eq:
  "resizeWidthBlock c t p (geometry t) (geometry t) =
     (if dragsLeft c then
        (geometry t)\<lparr> x1 := x2 (geometry t) + 1
            - qBound (minimumWidth t) (width t + (x1 (geometry t) - xp p)) (maximumWidth t) \<rparr>
      else if dragsRight c then
        (geometry t)\<lparr> x2 := x1 (geometry t) - 1
            + qBound (minimumWidth t) (width t + (xp p - x2 (geometry t))) (maximumWidth t) \<rparr>
      else geometry t)"
  unfolding dragsLeft_def dragsRight_def
  by (simp add: resizeWidthBlock_def Let_def rect_left_def rect_right_def setLeft_def
      setRight_def width_def rect_width_def)

lemma resizeHeightBlock_eq:
  assumes "y1 g = y1 (geometry t)" "y2 g = y2 (geometry t)"
  shows "resizeHeightBlock c t p (geometry t) g =
     (if dragsTop c then
        g\<lparr> y1 := y2 (geometry t) + 1
            - qBound (minimumHeight t) (height t + (y1 (geometry t) - yp p)) (maximumHeight t) \<rparr>
      else if dragsBottom c then
        g\<lparr> y2 := y1 (geometry t) - 1
            + qBound (minimumHeight t) (height t + (yp p - y2 (geometry t))) (maximumHeight t) \<rparr>
      else g)"
  unfolding dragsTop_def dragsBottom_def using assms
  by (simp add: resizeHeightBlock_def Let_def rect_top_def rect_bottom_def setTop_def
      setBottom_def height_def rect_height_def)

lemma mouseMoveEvent_resizing:
  assumes "mTarget h = Some t" "mResizeWidget h"
  shows "mouseMoveEvent p h =
     Some (True, h\<lparr> mTarget := Some (t\<lparr> geometry := draggedGeometry (mCursorPos h) t p \<rparr>) \<rparr>)"
proof (cases "draggedGeometry (mCursorPos h) t p = geometry t")
  case True
  have "h\<lparr> mTarget := Some (t\<lparr> geometry := geometry t \<rparr>) \<rparr> = h"
    using assms(1) by simp
  with True assms show ?thesis
    by (simp add: mouseMoveEvent_def Let_def draggedGeometry_def)
next
  case False
  with assms show ?thesis
    by (simp add: mouseMoveEvent_def Let_def draggedGeometry_def setGeometry_def)
qed

lemma draggedGeometry_width:
  "rect_width (draggedGeometry c t p) =
     (if dragsLeft c then qBound (minimumWidth t) (width t + (x1 (geometry t) - xp p)) (maximumWidth t)
      else if dragsRight c then qBound (minimumWidth t) (width t + (xp p - x2 (geometry t))) (maximumWidth t)
      else width t)"
proof -
  let ?g = "resizeWidthBlock c t p (geometry t) (geometry t)"
  have y: "y1 ?g = y1 (geometry t)" "y2 ?g = y2 (geometry t)"
    by (simp_all add: resizeWidthBlock_eq)
  have "rect_width (draggedGeometry c t p) = rect_width ?g"
    unfolding draggedGeometry_def resizeHeightBlock_eq [OF y]
    by (simp add: rect_width_def)
  then show ?thesis
    by (simp add: resizeWidthBlock_eq rect_width_def width_def)
qed

lemma draggedGeometry_height:
  "rect_height (draggedGeometry c t p) =
     (if dragsTop c then qBound (minimumHeight t) (height t + (y1 (geometry t) - yp p)) (maximumHeight t)
      else if dragsBottom c then qBound (minimumHeight t) (height t + (yp p - y2 (geometry t))) (maximumHeight t)
      else height t)"
proof -
  let ?g = "resizeWidthBlock c t p (geometry t) (geometry t)"
  have y: "y1 ?g = y1 (geometry t)" "y2 ?g = y2 (geometry t)"
    by (simp_all add: resizeWidthBlock_eq)
  show ?thesis
    unfolding draggedGeometry_def resizeHeightBlock_eq [OF y]
    by (simp add: rect_height_def height_def y)
qed

lemma draggedGeometry_fixed_edges:
  "(\<not> dragsLeft c \<longrightarrow> x1 (draggedGeometry c t p) = x1 (geometry t))"
  "(\<not> dragsRight c \<longrightarrow> x2 (draggedGeometry c t p) = x2 (geometry t))"
  "(\<not> dragsTop c \<longrightarrow> y1 (draggedGeometry c t p) = y1 (geometry t))"
  "(\<not> dragsBottom c \<longrightarrow> y2 (draggedGeometry c t p) = y2 (geometry t))"
proof -
  let ?g = "resizeWidthBlock c t p (geometry t) (geometry t)"
  have y: "y1 ?g = y1 (geometry t)" "y2 ?g = y2 (geometry t)"
    by (simp_all add: resizeWidthBlock_eq)
  show "(\<not> dragsLeft c \<longrightarrow> x1 (draggedGeometry c t p) = x1 (geometry t))"
    unfolding draggedGeometry_def resizeHeightBlock_eq [OF y]
    by (simp add: resizeWidthBlock_eq)
  show "(\<not> dragsRight c \<longrightarrow> x2 (draggedGeometry c t p) = x2 (geometry t))"
    unfolding draggedGeometry_def resizeHeightBlock_eq [OF y]
    using drags_disjoint(1)[of c] by (auto simp add: resizeWidthBlock_eq)
  show "(\<not> dragsTop c \<longrightarrow> y1 (draggedGeometry c t p) = y1 (geometry t))"
    unfolding draggedGeometry_def resizeHeightBlock_eq [OF y]
    by (simp add: y)
  show "(\<not> dragsBottom c \<longrightarrow> y2 (draggedGeometry c t p) = y2 (geometry t))"
    unfolding draggedGeometry_def resizeHeightBlock_eq [OF y]
    using drags_disjoint(2)[of c] by (auto simp add: y)
qed

lemma draggedGeometry_within:
  assumes "minimumWidth t \<le> maximumWidth t" "minimumHeight t \<le> maximumHeight t"
    and "withinConstraints t"
  shows "withinConstraints (t\<lparr> geometry := draggedGeometry c t p \<rparr>)"
proof -
  let ?t' = "t\<lparr> geometry := draggedGeometry c t p \<rparr>"
  have w: "width ?t' = rect_width (draggedGeometry c t p)"
    and h: "height ?t' = rect_height (draggedGeometry c t p)"
    by (simp_all add: width_def height_def)
  have mm: "minimumWidth ?t' = minimumWidth t" "maximumWidth ?t' = maximumWidth t"
    "minimumHeight ?t' = minimumHeight t" "maximumHeight ?t' = maximumHeight t"
    by (simp_all add: minimumWidth_def maximumWidth_def minimumHeight_def maximumHeight_def)
  have "minimumWidth t \<le> width ?t' \<and> width ?t' \<le> maximumWidth t"
    unfolding w draggedGeometry_width
    using qBound_range [OF assms(1)] assms(3) by (simp add: withinConstraints_def)
  moreover have "minimumHeight t \<le> height ?t' \<and> height ?t' \<le> maximumHeight t"
    unfolding h draggedGeometry_height
    using qBound_range [OF assms(2)] assms(3) by (simp add: withinConstraints_def)
  ultimately show ?thesis
    unfolding withinConstraints_def mm by simp
qed

lemma updateCursor_target:
  assumes "mTarget h = Some t"
  shows "\<exists>h' t'. updateCursor m h = Some h' \<and> mTarget h' = Some t' \<and> sameShape t' t"
proof -
  have s: "\<And>c. \<exists>h' t'. setMouseCursor c h = Some h' \<and> mTarget h' = Some t' \<and> sameShape t' t"
    using assms by (simp add: setMouseCursor_def sameShape_def)
  have r: "\<exists>h' t'. restoreMouseCursor h = Some h' \<and> mTarget h' = Some t' \<and> sameShape t' t"
    using assms by (simp add: restoreMouseCursor_def sameShape_def)
  have "\<exists>h' t'. Some h = Some h' \<and> mTarget h' = Some t' \<and> sameShape t' t"
    using assms by (simp add: sameShape_def)
  with s r assms show ?thesis
    unfolding updateCursor_def by simp
qed

lemma withinConstraints_sameShape:
  "sameShape t' t \<Longrightarrow> withinConstraints t' = withinConstraints t"
  by (simp add: sameShape_def withinConstraints_def width_def height_def minimumWidth_def
      maximumWidth_def minimumHeight_def maximumHeight_def)

lemma mouseMoveEvent_step:
  assumes "mTarget h = Some t"
    and "minimumWidth t \<le> maximumWidth t" "minimumHeight t \<le> maximumHeight t"
    and "withinConstraints t"
  shows "\<exists>b h' t'. mouseMoveEvent p h = Some (b, h') \<and> mTarget h' = Some t'
           \<and> minimumSize t' = minimumSize t \<and> maximumSize t' = maximumSize t
           \<and> withinConstraints t'"
proof (cases "mResizeWidget h")
  case True
  have "withinConstraints (t\<lparr> geometry := draggedGeometry (mCursorPos h) t p \<rparr>)"
    by (rule draggedGeometry_within [OF assms(2-4)])
  then show ?thesis
    unfolding mouseMoveEvent_resizing [OF assms(1) True] by auto
next
  case False
  obtain h' t' where u: "updateCursor (cursorPosition h p) h = Some h'"
    "mTarget h' = Some t'" "sameShape t' t"
    using updateCursor_target [OF assms(1)] by blast
  have "withinConstraints t'"
    using withinConstraints_sameShape [OF u(3)] assms(4) by simp
  with False u show ?thesis
    by (simp add: mouseMoveEvent_def Let_def sameShape_def)
qed

lemma mouseMoveEvents_within:
  assumes "mTarget h = Some t"
    and "minimumWidth t \<le> maximumWidth t" "minimumHeight t \<le> maximumHeight t"
    and "withinConstraints t"
  shows "\<exists>h' t'. mouseMoveEvents ps h = Some h' \<and> mTarget h' = Some t'
           \<and> minimumSize t' = minimumSize t \<and> maximumSize t' = maximumSize t
           \<and> withinConstraints t'"
  using assms
proof (induction ps arbitrary: h t)
  case Nil
  then show ?case by simp
next
  case (Cons p ps)
  obtain b h1 t1 where s: "mouseMoveEvent p h = Some (b, h1)" "mTarget h1 = Some t1"
    "minimumSize t1 = minimumSize t" "maximumSize t1 = maximumSize t" "withinConstraints t1"
    using mouseMoveEvent_step [OF Cons.prems] by blast
  have c: "minimumWidth t1 \<le> maximumWidth t1" "minimumHeight t1 \<le> maximumHeight t1"
    using s(3,4) Cons.prems(2,3)
    by (simp_all add: minimumWidth_def maximumWidth_def minimumHeight_def maximumHeight_def)
  from Cons.IH [OF s(2) c s(5)] s show ?case by auto
qed

lemma qAbs_le: "qAbs v \<le> m \<longleftrightarrow> - m \<le> v \<and> v \<le> m"
  by (auto simp: qAbs_def)

lemma cursorPosition_zones:
  assumes "mTarget h = Some t"
  shows "cursorPosition h p =
           horizontalZone t (xp p - x1 (geometry t)) OR verticalZone t (yp p - y1 (geometry t))"
  using assms
  by (simp add: cursorPosition_def Let_def mapFromGlobal_def widgetResizeHandlerMargin_def
      qAbs_le horizontalZone_def verticalZone_def CursorPosition_defs)

lemma zones_or_cases:
  "horizontalZone t x OR verticalZone t y \<in>
     {CursorPosition_Undefined, CursorPosition_Left, CursorPosition_Right, CursorPosition_Top,
      CursorPosition_Bottom, CursorPosition_TopLeft, CursorPosition_TopRight,
      CursorPosition_BottomLeft, CursorPosition_BottomRight}"
  by (simp add: horizontalZone_def verticalZone_def CursorPosition_defs)

lemma zones_or_undefined:
  "horizontalZone t x OR verticalZone t y = CursorPosition_Undefined \<longleftrightarrow>
     horizontalZone t x = CursorPosition_Undefined \<and> verticalZone t y = CursorPosition_Undefined"
  by (simp add: horizontalZone_def verticalZone_def CursorPosition_defs)

lemma press_undefined:
  assumes "mTarget h = Some t" "eventType e = MouseButtonPress"
    "cursorPosition h (eventGlobalPos e) = CursorPosition_Undefined"
  shows "eventFilter o' e h = Some (False, h)"
  using assms by (cases o') (simp_all add: eventFilter_def Let_def)

lemma exampleHandler_facts:
  "mTarget exampleHandler = Some exampleTarget"
  "minimumWidth exampleTarget \<le> maximumWidth exampleTarget"
  "minimumHeight exampleTarget \<le> maximumHeight exampleTarget"
  "withinConstraints exampleTarget"
  "mResizeWidget exampleHandler"
  by (simp_all add: exampleHandler_def exampleTarget_def withinConstraints_def minimumWidth_def
      maximumWidth_def minimumHeight_def maximumHeight_def width_def height_def rect_width_def
      rect_height_def)

text \<open>
  C9. While the target window is maximized, the event filter does nothing for a mouse
  press, move or release (or any other event): it returns \<open>false\<close> and leaves the handler
  and its target exactly as they were, so no resize session starts and the geometry does
  not change; the same holds for any stream of events.
\<close>

theorem maximized_window_is_not_resized:
  assumes "mTarget h = Some t" and "isMaximized t"
  shows "eventFilter o' e h = Some (False, h) \<and> eventFilterAll es h = Some h"
  using assms by (simp add: eventFilter_maximized eventFilterAll_maximized)

theorem maximized_window_is_not_resized_witness:
  "eventFilter (Widget True True)
     \<lparr> eventType = MouseMove, eventGlobalPos = \<lparr> xp = 500, yp = 500 \<rparr>,
       button = NoButton, buttonsLeft = True \<rparr>
     (exampleHandler\<lparr> mTarget := Some (exampleTarget\<lparr> isMaximized := True \<rparr>) \<rparr>)
   = Some (False, exampleHandler\<lparr> mTarget := Some (exampleTarget\<lparr> isMaximized := True \<rparr>) \<rparr>)
   \<and> eventFilterAll
       [(Widget True True,
         \<lparr> eventType = MouseButtonPress, eventGlobalPos = \<lparr> xp = 299, yp = 249 \<rparr>,
           button = LeftButton, buttonsLeft = True \<rparr>),
        (Widget True True,
         \<lparr> eventType = MouseMove, eventGlobalPos = \<lparr> xp = 500, yp = 500 \<rparr>,
           button = NoButton, buttonsLeft = True \<rparr>),
        (Widget True True,
         \<lparr> eventType = MouseButtonRelease, eventGlobalPos = \<lparr> xp = 500, yp = 500 \<rparr>,
           button = LeftButton, buttonsLeft = False \<rparr>)]
       (exampleHandler\<lparr> mTarget := Some (exampleTarget\<lparr> isMaximized := True \<rparr>) \<rparr>)
   = Some (exampleHandler\<lparr> mTarget := Some (exampleTarget\<lparr> isMaximized := True \<rparr>) \<rparr>)"
  by (rule maximized_window_is_not_resized
        [of "exampleHandler\<lparr> mTarget := Some (exampleTarget\<lparr> isMaximized := True \<rparr>) \<rparr>"
            "exampleTarget\<lparr> isMaximized := True \<rparr>"])
     simp_all

text \<open>
  C2. For a target whose minimum size does not exceed its maximum size and whose size
  is within these constraints, every sequence of pointer moves handled by
  \<open>mouseMoveEvent\<close> leaves the target's width within [minimumWidth, maximumWidth] and
  its height within [minimumHeight, maximumHeight], and the constraints themselves
  untouched. During a drag each move sets the dimension of a dragged axis to
  \<open>qBound(min, dimension + delta, max)\<close>, where delta is the distance of the pointer
  from the dragged edge, by moving that edge only; an axis that is not dragged keeps its
  dimension, and a corner drag adjusts both axes independently.
\<close>

theorem drag_keeps_size_within_constraints:
  assumes "mTarget h = Some t"
    and "minimumWidth t \<le> maximumWidth t" and "minimumHeight t \<le> maximumHeight t"
    and "withinConstraints t"
  shows "(\<exists>h' t'. mouseMoveEvents ps h = Some h' \<and> mTarget h' = Some t'
            \<and> minimumSize t' = minimumSize t \<and> maximumSize t' = maximumSize t
            \<and> withinConstraints t')
       \<and> (mResizeWidget h \<longrightarrow>
            (\<exists>t'. mouseMoveEvent p h = Some (True, h\<lparr> mTarget := Some t' \<rparr>)
               \<and> withinConstraints t'
               \<and> width t' =
                   (if dragsLeft (mCursorPos h)
                      then qBound (minimumWidth t) (width t + (x1 (geometry t) - xp p)) (maximumWidth t)
                    else if dragsRight (mCursorPos h)
                      then qBound (minimumWidth t) (width t + (xp p - x2 (geometry t))) (maximumWidth t)
                    else width t)
               \<and> height t' =
                   (if dragsTop (mCursorPos h)
                      then qBound (minimumHeight t) (height t + (y1 (geometry t) - yp p)) (maximumHeight t)
                    else if dragsBottom (mCursorPos h)
                      then qBound (minimumHeight t) (height t + (yp p - y2 (geometry t))) (maximumHeight t)
                    else height t)
               \<and> (\<not> dragsLeft (mCursorPos h) \<longrightarrow> x1 (geometry t') = x1 (geometry t))
               \<and> (\<not> dragsRight (mCursorPos h) \<longrightarrow> x2 (geometry t') = x2 (geometry t))
               \<and> (\<not> dragsTop (mCursorPos h) \<longrightarrow> y1 (geometry t') = y1 (geometry t))
               \<and> (\<not> dragsBottom (mCursorPos h) \<longrightarrow> y2 (geometry t') = y2 (geometry t))))"
proof (intro conjI impI)
  show "\<exists>h' t'. mouseMoveEvents ps h = Some h' \<and> mTarget h' = Some t'
            \<and> minimumSize t' = minimumSize t \<and> maximumSize t' = maximumSize t
            \<and> withinConstraints t'"
    by (rule mouseMoveEvents_within [OF assms])
next
  assume r: "mResizeWidget h"
  let ?c = "mCursorPos h"
  let ?t' = "t\<lparr> geometry := draggedGeometry ?c t p \<rparr>"
  have 1: "mouseMoveEvent p h = Some (True, h\<lparr> mTarget := Some ?t' \<rparr>)"
    by (rule mouseMoveEvent_resizing [OF assms(1) r])
  have 2: "withinConstraints ?t'"
    by (rule draggedGeometry_within [OF assms(2-4)])
  have 3: "width ?t' = rect_width (draggedGeometry ?c t p)"
    "height ?t' = rect_height (draggedGeometry ?c t p)"
    by (simp_all add: width_def height_def)
  have 4: "geometry ?t' = draggedGeometry ?c t p" by simp
  show "\<exists>t'. mouseMoveEvent p h = Some (True, h\<lparr> mTarget := Some t' \<rparr>)
               \<and> withinConstraints t'
               \<and> width t' =
                   (if dragsLeft (mCursorPos h)
                      then qBound (minimumWidth t) (width t + (x1 (geometry t) - xp p)) (maximumWidth t)
                    else if dragsRight (mCursorPos h)
                      then qBound (minimumWidth t) (width t + (xp p - x2 (geometry t))) (maximumWidth t)
                    else width t)
               \<and> height t' =
                   (if dragsTop (mCursorPos h)
                      then qBound (minimumHeight t) (height t + (y1 (geometry t) - yp p)) (maximumHeight t)
                    else if dragsBottom (mCursorPos h)
                      then qBound (minimumHeight t) (height t + (yp p - y2 (geometry t))) (maximumHeight t)
                    else height t)
               \<and> (\<not> dragsLeft (mCursorPos h) \<longrightarrow> x1 (geometry t') = x1 (geometry t))
               \<and> (\<not> dragsRight (mCursorPos h) \<longrightarrow> x2 (geometry t') = x2 (geometry t))
               \<and> (\<not> dragsTop (mCursorPos h) \<longrightarrow> y1 (geometry t') = y1 (geometry t))
               \<and> (\<not> dragsBottom (mCursorPos h) \<longrightarrow> y2 (geometry t') = y2 (geometry t))"
    apply (rule exI [of _ ?t'])
    unfolding 3 4 draggedGeometry_width draggedGeometry_height
    using 1 2 draggedGeometry_fixed_edges [of ?c t p]
    by simp
qed

theorem drag_keeps_size_within_constraints_witness:
  "(\<exists>h' t'. mouseMoveEvents [\<lparr> xp = 1000, yp = 1000 \<rparr>, \<lparr> xp = 0, yp = 0 \<rparr>] exampleHandler = Some h'
        \<and> mTarget h' = Some t' \<and> withinConstraints t')
   \<and> (\<exists>t'. mouseMoveEvent \<lparr> xp = 1000, yp = 1000 \<rparr> exampleHandler
               = Some (True, exampleHandler\<lparr> mTarget := Some t' \<rparr>)
          \<and> width t' = 400 \<and> height t' = 300
          \<and> x1 (geometry t') = 100 \<and> y1 (geometry t') = 100)"
proof -
  note T = drag_keeps_size_within_constraints
    [OF exampleHandler_facts(1-4),
      of "[\<lparr> xp = 1000, yp = 1000 \<rparr>, \<lparr> xp = 0, yp = 0 \<rparr>]" "\<lparr> xp = 1000, yp = 1000 \<rparr>"]
  have c: "\<not> dragsLeft (mCursorPos exampleHandler)" "dragsRight (mCursorPos exampleHandler)"
    "\<not> dragsTop (mCursorPos exampleHandler)" "dragsBottom (mCursorPos exampleHandler)"
    by (simp_all add: exampleHandler_def dragsLeft_def dragsRight_def dragsTop_def
        dragsBottom_def CursorPosition_defs)
  have v: "qBound (minimumWidth exampleTarget)
             (width exampleTarget + (1000 - x2 (geometry exampleTarget)))
             (maximumWidth exampleTarget) = 400"
    "qBound (minimumHeight exampleTarget)
             (height exampleTarget + (1000 - y2 (geometry exampleTarget)))
             (maximumHeight exampleTarget) = 300"
    "x1 (geometry exampleTarget) = 100" "y1 (geometry exampleTarget) = 100"
    by (simp_all add: exampleTarget_def qBound_def qMax_def qMin_def minimumWidth_def
        maximumWidth_def minimumHeight_def maximumHeight_def width_def height_def rect_width_def
        rect_height_def)
  from T exampleHandler_facts(5) show ?thesis
    unfolding c v by (simp add: c v) blast
qed


text \<open>
  Claim C5 as stated does not hold: the far zones are not centred on the right and
  bottom boundaries. In a window 200 pixels wide, a pointer 8 pixels inside the right
  boundary is classified as Right, and one 3 pixels beyond it is not.
\<close>

theorem cursorPosition_right_zone_counterexample:
  "cursorPosition exampleHandler \<lparr> xp = 292, yp = 175 \<rparr> = CursorPosition_Right
   \<and> cursorPosition_spec exampleHandler \<lparr> xp = 292, yp = 175 \<rparr> = CursorPosition_Undefined
   \<and> cursorPosition exampleHandler \<lparr> xp = 303, yp = 175 \<rparr> = CursorPosition_Undefined
   \<and> cursorPosition_spec exampleHandler \<lparr> xp = 303, yp = 175 \<rparr> = CursorPosition_Right"
  by (simp add: cursorPosition_def cursorPosition_spec_def exampleHandler_def exampleTarget_def
      mapFromGlobal_def width_def height_def rect_width_def rect_height_def qAbs_def
      withinMarginOf_def widgetResizeHandlerMargin_def CursorPosition_defs Let_def)


text \<open>
  C5, amended. \<open>cursorPosition\<close> tests the two axes independently and combines the
  matches as a bitmask: horizontally Left when the pointer is within 4 pixels of the left
  boundary, else Right when it is between 8 pixels inside the right boundary and the
  boundary itself; vertically Top when within 4 pixels of the top boundary, else Bottom
  when between 8 pixels inside the bottom boundary and the boundary itself. The result
  is one of the four edges, the four corners, or Undefined, and it is Undefined exactly
  when neither axis matches; a press at an Undefined position starts no resize.
\<close>

theorem cursorPosition_zones_classification:
  assumes "mTarget h = Some t"
  shows "cursorPosition h p =
           horizontalZone t (xp p - x1 (geometry t)) OR verticalZone t (yp p - y1 (geometry t))
       \<and> cursorPosition h p \<in>
           {CursorPosition_Undefined, CursorPosition_Left, CursorPosition_Right,
            CursorPosition_Top, CursorPosition_Bottom, CursorPosition_TopLeft,
            CursorPosition_TopRight, CursorPosition_BottomLeft, CursorPosition_BottomRight}
       \<and> (cursorPosition h p = CursorPosition_Undefined \<longleftrightarrow>
            horizontalZone t (xp p - x1 (geometry t)) = CursorPosition_Undefined
            \<and> verticalZone t (yp p - y1 (geometry t)) = CursorPosition_Undefined)
       \<and> (eventType e = MouseButtonPress
            \<and> cursorPosition h (eventGlobalPos e) = CursorPosition_Undefined
            \<longrightarrow> eventFilter o' e h = Some (False, h))"
proof (intro conjI impI)
  show z: "cursorPosition h p =
           horizontalZone t (xp p - x1 (geometry t)) OR verticalZone t (yp p - y1 (geometry t))"
    by (rule cursorPosition_zones [OF assms])
  show "cursorPosition h p \<in>
           {CursorPosition_Undefined, CursorPosition_Left, CursorPosition_Right,
            CursorPosition_Top, CursorPosition_Bottom, CursorPosition_TopLeft,
            CursorPosition_TopRight, CursorPosition_BottomLeft, CursorPosition_BottomRight}"
    unfolding z by (rule zones_or_cases)
  show "cursorPosition h p = CursorPosition_Undefined \<longleftrightarrow>
            horizontalZone t (xp p - x1 (geometry t)) = CursorPosition_Undefined
            \<and> verticalZone t (yp p - y1 (geometry t)) = CursorPosition_Undefined"
    unfolding z by (rule zones_or_undefined)
next
  assume "eventType e = MouseButtonPress
            \<and> cursorPosition h (eventGlobalPos e) = CursorPosition_Undefined"
  then show "eventFilter o' e h = Some (False, h)"
    using press_undefined [OF assms] by blast
qed

theorem cursorPosition_zones_classification_witness:
  "cursorPosition exampleHandler \<lparr> xp = 292, yp = 104 \<rparr> = CursorPosition_TopRight
   \<and> cursorPosition exampleHandler \<lparr> xp = 200, yp = 175 \<rparr> = CursorPosition_Undefined
   \<and> eventFilter (Widget True True)
       \<lparr> eventType = MouseButtonPress, eventGlobalPos = \<lparr> xp = 200, yp = 175 \<rparr>,
         button = LeftButton, buttonsLeft = True \<rparr>
       exampleHandler = Some (False, exampleHandler)"
proof -
  have t: "mTarget exampleHandler = Some exampleTarget"
    by (simp add: exampleHandler_def)
  have g: "x1 (geometry exampleTarget) = 100" "y1 (geometry exampleTarget) = 100"
    "width exampleTarget = 200" "height exampleTarget = 150"
    by (simp_all add: exampleTarget_def width_def height_def rect_width_def rect_height_def)
  note T = cursorPosition_zones_classification [OF t]
  have a: "cursorPosition exampleHandler \<lparr> xp = 292, yp = 104 \<rparr> = CursorPosition_TopRight"
    using T [of "\<lparr> xp = 292, yp = 104 \<rparr>"]
    by (simp add: g horizontalZone_def verticalZone_def CursorPosition_defs)
  have b: "cursorPosition exampleHandler \<lparr> xp = 200, yp = 175 \<rparr> = CursorPosition_Undefined"
    using T [of "\<lparr> xp = 200, yp = 175 \<rparr>"]
    by (simp add: g horizontalZone_def verticalZone_def CursorPosition_defs)
  have "eventFilter (Widget True True)
       \<lparr> eventType = MouseButtonPress, eventGlobalPos = \<lparr> xp = 200, yp = 175 \<rparr>,
         button = LeftButton, buttonsLeft = True \<rparr>
       exampleHandler = Some (False, exampleHandler)"
    using T [of _ "\<lparr> eventType = MouseButtonPress, eventGlobalPos = \<lparr> xp = 200, yp = 175 \<rparr>,
         button = LeftButton, buttonsLeft = True \<rparr>" "Widget True True"] b
    by simp
  with a b show ?thesis by simp
qed

section \<open>Properties of the side-bar placement heuristic\<close>

lemmas LayoutBorderLocation_defs =
  LayoutBorderLocation_None_def LayoutBorderLocation_North_def LayoutBorderLocation_East_def
  LayoutBorderLocation_West_def LayoutBorderLocation_South_def LayoutBorderLocation_All_def
  LayoutBorderLocation_Verticals_def LayoutBorderLocation_Horizontals_def

lemma borders_cases:
  assumes "(b::32 word) \<le> 15"
  shows "b \<in> {0, 1, 2, 3, 4, 5, 6, 7, 8, 9, 10, 11, 12, 13, 14, 15}"
proof -
  from assms have "unat b \<le> 15" by (simp add: word_le_nat_alt)
  then have "unat b = 0 \<or> unat b = 1 \<or> unat b = 2 \<or> unat b = 3 \<or> unat b = 4 \<or> unat b = 5
     \<or> unat b = 6 \<or> unat b = 7 \<or> unat b = 8 \<or> unat b = 9 \<or> unat b = 10 \<or> unat b = 11
     \<or> unat b = 12 \<or> unat b = 13 \<or> unat b = 14 \<or> unat b = 15"
    by arith
  then have "word_of_nat (unat b) \<in> ({0, 1, 2, 3, 4, 5, 6, 7, 8, 9, 10, 11, 12, 13, 14, 15} :: 32 word set)"
    by (elim disjE) simp_all
  then show ?thesis by simp
qed

lemma preferredSideBar_value:
  "preferredSideBar (Some \<lparr> adjacentLayoutBorders = k \<rparr>) w h = ([], preferredLocation_rules k (qreal_div w h))"
  if "k \<in> {0, 1, 2, 3, 4, 5, 6, 7, 8, 9, 10, 11, 12, 13, 14, 15}"
  using that
  by (elim insertE emptyE)
    (simp_all add: preferredSideBar_def preferredLocation_rules_def touches_def Let_def
       LayoutBorderLocation_defs opposedSideBarLocationForBorder_def sideBarLocationForBorder_def)

text \<open>
  C1. For a dock widget whose frame has an item in the layout, and for every set of
  borders over North, East, West and South and every width and height,
  \<open>preferredSideBar\<close> returns, without a warning, the location that the rule table of
  the spec gives for the borders and the aspect ratio width/height; that location is
  one of North, East, West and South. With aspect ratio 2.0 and all four borders touched
  the result is South.
\<close>

theorem preferredSideBar_follows_rules:
  assumes "borders \<le> LayoutBorderLocation_All"
  shows "preferredSideBar (Some \<lparr> adjacentLayoutBorders = borders \<rparr>) w h
           = ([], preferredLocation_rules borders (qreal_div w h))
       \<and> preferredLocation_rules borders (qreal_div w h)
           \<in> {SideBarLocation_North, SideBarLocation_East, SideBarLocation_West, SideBarLocation_South}
       \<and> (qreal_div w h = Finite 2.0 \<longrightarrow>
            preferredSideBar (Some \<lparr> adjacentLayoutBorders = LayoutBorderLocation_All \<rparr>) w h
              = ([], SideBarLocation_South))"
proof -
  from assms have "borders \<le> 15" by (simp add: LayoutBorderLocation_defs)
  from preferredSideBar_value [OF borders_cases [OF this]]
  have 1: "preferredSideBar (Some \<lparr> adjacentLayoutBorders = borders \<rparr>) w h
           = ([], preferredLocation_rules borders (qreal_div w h))" .
  have 2: "preferredLocation_rules borders (qreal_div w h)
           \<in> {SideBarLocation_North, SideBarLocation_East, SideBarLocation_West, SideBarLocation_South}"
    by (simp add: preferredLocation_rules_def Let_def)
  have 3: "qreal_div w h = Finite 2.0 \<longrightarrow>
            preferredSideBar (Some \<lparr> adjacentLayoutBorders = LayoutBorderLocation_All \<rparr>) w h
              = ([], SideBarLocation_South)"
    by (simp add: preferredSideBar_def Let_def)
  from 1 2 3 show ?thesis by simp
qed

theorem preferredSideBar_follows_rules_witness:
  "preferredSideBar (Some \<lparr> adjacentLayoutBorders = LayoutBorderLocation_All \<rparr>) 200 100
     = ([], SideBarLocation_South)
   \<and> preferredSideBar (Some \<lparr> adjacentLayoutBorders =
        LayoutBorderLocation_North OR LayoutBorderLocation_East OR LayoutBorderLocation_South \<rparr>) 200 100
     = ([], SideBarLocation_East)"
proof -
  have a: "LayoutBorderLocation_All \<le> LayoutBorderLocation_All" by simp
  have b: "LayoutBorderLocation_North OR LayoutBorderLocation_East OR LayoutBorderLocation_South
            \<le> LayoutBorderLocation_All"
    by (simp add: LayoutBorderLocation_defs)
  have q: "qreal_div 200 100 = Finite 2" by (simp add: qreal_div_def)
  from preferredSideBar_follows_rules [OF a, of 200 100]
       preferredSideBar_follows_rules [OF b, of 200 100]
  show ?thesis
    by (simp add: q preferredLocation_rules_def Let_def touches_def LayoutBorderLocation_defs)
qed

text \<open>
  C6. For a dock widget whose frame has no item in the layout, \<open>preferredSideBar\<close>
  reports the warning "No item for dock widget" and returns None, whatever the width and
  height of the dock widget; there are no borders to consult.
\<close>

theorem preferredSideBar_without_item:
  "preferredSideBar None w h = ([''No item for dock widget''], SideBarLocation_None)"
  by (simp add: preferredSideBar_def)

section \<open>Properties of the main window\<close>

lemma sideBarForDockWidget_loop_None:
  assumes "\<forall>loc \<in> set locs. \<forall>sb. sideBar q loc = Some sb \<longrightarrow> \<not> containsDockWidget sb dw"
  shows "sideBarForDockWidget_loop q dw locs = None"
  using assms by (induction locs) (auto split: option.splits)

lemma serialize_fold_fields:
  "mw_options (fold (serialize_body env q) locs m) = mw_options m"
  "mw_geometry (fold (serialize_body env q) locs m) = mw_geometry m"
  "mw_affinities (fold (serialize_body env q) locs m) = mw_affinities m"
  "mw_multiSplitterLayout (fold (serialize_body env q) locs m) = mw_multiSplitterLayout m"
  "mw_isVisible (fold (serialize_body env q) locs m) = mw_isVisible m"
  "mw_uniqueName (fold (serialize_body env q) locs m) = mw_uniqueName m"
  "mw_screenIndex (fold (serialize_body env q) locs m) = mw_screenIndex m"
  "mw_screenSize (fold (serialize_body env q) locs m) = mw_screenSize m"
  by (induction locs arbitrary: m; simp add: serialize_body_def Let_def split: option.splits)+

lemma serialize_fold_sideBars:
  "mw_dockWidgetsPerSideBar (fold (serialize_body env q) locs m) loc =
     (if loc \<in> set locs then
        (case sideBar q loc of
           Some sb \<Rightarrow> if sb_serialize (uniqueName env) sb \<noteq> []
                      then Some (sb_serialize (uniqueName env) sb)
                      else mw_dockWidgetsPerSideBar m loc
         | None \<Rightarrow> mw_dockWidgetsPerSideBar m loc)
      else mw_dockWidgetsPerSideBar m loc)"
  by (induction locs arbitrary: m) (auto simp add: serialize_body_def Let_def split: option.splits)

lemma clearSideBars_fold:
  "fold clearSideBars_body locs q =
     q\<lparr> sideBar := (\<lambda>loc. if loc \<in> set locs then map_option sb_clear (sideBar q loc)
                            else sideBar q loc) \<rparr>"
proof (induction locs arbitrary: q)
  case Nil
  then show ?case by simp
next
  case (Cons a locs)
  have idem: "sb_clear (sb_clear sb) = sb_clear sb" for sb
    by (simp add: sb_clear_def)
  show ?case
    unfolding fold_simps Cons.IH
    by (cases "sideBar q a") (auto simp: clearSideBars_body_def fun_eq_iff idem)
qed

lemma restoreSideBar_registered:
  assumes "\<forall>d \<in> set ds. dockByName env (uniqueName env d) = Some d"
  shows "restoreSideBar env (map (uniqueName env) ds) sb
           = ([], sb\<lparr> m_dockWidgets := m_dockWidgets sb @ ds \<rparr>)"
  using assms by (induction ds arbitrary: sb) (simp_all add: sb_addDockWidget_def)

lemma deserialize_fold:
  assumes "distinct locs"
  shows "fold (deserialize_body env mw) locs (out, q) =
     (out @ concat (map (\<lambda>loc. case sideBar q loc of
                                 None \<Rightarrow> []
                               | Some sb \<Rightarrow> fst (restoreSideBar env
                                    (case mw_dockWidgetsPerSideBar mw loc of Some ns \<Rightarrow> ns | None \<Rightarrow> []) sb))
                       locs),
      q\<lparr> sideBar := (\<lambda>loc. if loc \<in> set locs
                            then map_option (\<lambda>sb. snd (restoreSideBar env
                                    (case mw_dockWidgetsPerSideBar mw loc of Some ns \<Rightarrow> ns | None \<Rightarrow> []) sb))
                                   (sideBar q loc)
                            else sideBar q loc) \<rparr>)"
  using assms
proof (induction locs arbitrary: out q)
  case Nil
  then show ?case by simp
next
  case (Cons a locs)
  from Cons.prems have d: "distinct locs" and a: "a \<notin> set locs" by simp_all
  show ?case
  proof (cases "sideBar q a")
    case None
    then have s: "deserialize_body env mw a (out, q) = (out, q)"
      by (simp add: deserialize_body_def)
    show ?thesis
      unfolding fold_simps s Cons.IH [OF d]
      using None by (auto simp: fun_eq_iff)
  next
    case (Some sb)
    obtain o' sb' where r: "restoreSideBar env
        (case mw_dockWidgetsPerSideBar mw a of Some ns \<Rightarrow> ns | None \<Rightarrow> []) sb = (o', sb')"
      by force
    have s: "deserialize_body env mw a (out, q) =
               (out @ o', q\<lparr> sideBar := (sideBar q)(a := Some sb') \<rparr>)"
      using Some r by (simp add: deserialize_body_def Let_def)
    have m: "map (\<lambda>loc. case (if loc = a then Some sb' else sideBar q loc) of
                                 None \<Rightarrow> []
                               | Some sb \<Rightarrow> fst (restoreSideBar env
                                    (case mw_dockWidgetsPerSideBar mw loc of Some ns \<Rightarrow> ns | None \<Rightarrow> []) sb))
                       locs
           = map (\<lambda>loc. case sideBar q loc of
                                 None \<Rightarrow> []
                               | Some sb \<Rightarrow> fst (restoreSideBar env
                                    (case mw_dockWidgetsPerSideBar mw loc of Some ns \<Rightarrow> ns | None \<Rightarrow> []) sb))
                       locs"
      using a by (intro map_cong) auto
    show ?thesis
      unfolding fold_simps s Cons.IH [OF d]
      using Some r a by (auto simp: fun_eq_iff m)
  qed
qed


text \<open>
  C8. For a dock widget that none of the four side bars contains, \<open>overlayOnSideBar\<close>
  reports the warning and returns with the main window unchanged: the overlayed dock
  widget, the side bars, the layout and the frames are as before, so no frame was
  created.
\<close>

theorem overlayOnSideBar_requires_sidebar:
  assumes "\<forall>loc \<in> {SideBarLocation_North, SideBarLocation_East, SideBarLocation_West, SideBarLocation_South}.
             \<forall>sb. sideBar q loc = Some sb \<longrightarrow> d \<notin> set (m_dockWidgets sb)"
  shows "overlayOnSideBar env (Some d) q =
           Some ([qWarning ''You need to add the dock widget to the sidebar before you can overlay it''], q)"
proof -
  have "sideBarForDockWidget q (Some d) = None"
    unfolding sideBarForDockWidget_def
    by (rule sideBarForDockWidget_loop_None) (use assms in \<open>auto simp: containsDockWidget_def\<close>)
  then show ?thesis
    by (simp add: overlayOnSideBar_def)
qed

theorem overlayOnSideBar_requires_sidebar_witness:
  "overlayOnSideBar exampleCollaborators (Some 3) exampleMainWindow =
     Some ([qWarning ''You need to add the dock widget to the sidebar before you can overlay it''],
           exampleMainWindow)"
  by (rule overlayOnSideBar_requires_sidebar)
     (simp add: exampleMainWindow_def exampleSideBar_def)


text \<open>
  C7. When the options stored in a snapshot differ from the options of the main
  window, \<open>deserialize\<close> reports the mismatch and returns \<open>false\<close> with the main window
  unchanged: layout, side bars and affinities are as before.
\<close>

theorem deserialize_refuses_other_options:
  assumes "mw_options mw \<noteq> m_options q"
  shows "deserialize env mw q =
           ([qWarning ''Refusing to restore MainWindow with different options''], False, q)"
  using assms by (simp add: deserialize_def)

theorem deserialize_refuses_other_options_witness:
  "deserialize exampleCollaborators
     ((serialize exampleCollaborators exampleMainWindow)\<lparr> mw_options := 0 \<rparr>) exampleMainWindow
   = ([qWarning ''Refusing to restore MainWindow with different options''], False, exampleMainWindow)"
  by (rule deserialize_refuses_other_options) (simp add: exampleMainWindow_def)


lemma serialize_fields:
  "mw_options (serialize env q) = m_options q"
  "mw_geometry (serialize env q) = window_geometry q"
  "mw_affinities (serialize env q) = affinities q"
  "mw_multiSplitterLayout (serialize env q) = dropArea_serialize env (dropArea q)"
  unfolding serialize_def Let_def serialize_fold_fields by simp_all

lemma serialize_sideBars:
  assumes "loc \<in> {SideBarLocation_North, SideBarLocation_East, SideBarLocation_West, SideBarLocation_South}"
  shows "mw_dockWidgetsPerSideBar (serialize env q) loc =
           (case sideBar q loc of
              Some sb \<Rightarrow> if m_dockWidgets sb \<noteq> []
                         then Some (map (uniqueName env) (m_dockWidgets sb)) else None
            | None \<Rightarrow> None)"
  unfolding serialize_def Let_def serialize_fold_sideBars
  using assms by (simp add: sb_serialize_def split: option.splits)

lemma serialize_names:
  assumes "loc \<in> {SideBarLocation_North, SideBarLocation_East, SideBarLocation_West, SideBarLocation_South}"
  shows "(case mw_dockWidgetsPerSideBar (serialize env q) loc of Some ns \<Rightarrow> ns | None \<Rightarrow> [])
           = map (uniqueName env) (minimizedAt q loc)"
  unfolding serialize_sideBars [OF assms] minimizedAt_def
  by (simp split: option.splits)

lemma deserialize_snapshot:
  assumes opts: "m_options q' = m_options q"
    and reg: "\<forall>loc \<in> {SideBarLocation_North, SideBarLocation_East, SideBarLocation_West, SideBarLocation_South}.
             \<forall>d \<in> set (minimizedAt q loc). dockByName env (uniqueName env d) = Some d"
  shows "deserialize env (serialize env q) q' =
     ((if affinities q' \<noteq> affinities q then [qWarning ''Affinty name changed''] else []),
      fst (dropArea_deserialize env (dropArea_serialize env (dropArea q)) (dropArea q')),
      q'\<lparr> affinities := affinities q,
          dropArea := snd (dropArea_deserialize env (dropArea_serialize env (dropArea q)) (dropArea q')),
          sideBar := (\<lambda>loc. if loc \<in> {SideBarLocation_North, SideBarLocation_East,
                                          SideBarLocation_West, SideBarLocation_South}
                             then map_option (\<lambda>sb. sb\<lparr> m_dockWidgets := minimizedAt q loc \<rparr>)
                                    (sideBar q' loc)
                             else sideBar q' loc) \<rparr>)"
proof -
  let ?locs = "[SideBarLocation_North, SideBarLocation_East, SideBarLocation_West, SideBarLocation_South]"
  let ?four = "{SideBarLocation_North, SideBarLocation_East, SideBarLocation_West, SideBarLocation_South}"
  let ?mw = "serialize env q"
  let ?names = "\<lambda>loc. case mw_dockWidgetsPerSideBar ?mw loc of Some ns \<Rightarrow> ns | None \<Rightarrow> []"
  let ?layout = "snd (dropArea_deserialize env (dropArea_serialize env (dropArea q)) (dropArea q'))"
  let ?q2 = "q'\<lparr> affinities := affinities q, dropArea := ?layout \<rparr>"
  have four: "set ?locs = ?four" by simp
  have restored: "restoreSideBar env (?names loc) (sb_clear s) = ([], s\<lparr> m_dockWidgets := minimizedAt q loc \<rparr>)"
    if "loc \<in> ?four" for loc s
  proof -
    have "\<forall>d \<in> set (minimizedAt q loc). dockByName env (uniqueName env d) = Some d"
      using reg that by blast
    from restoreSideBar_registered [OF this, of "sb_clear s"]
    show ?thesis
      unfolding serialize_names [OF that] by (simp add: sb_clear_def)
  qed
  have c: "clearSideBars ?q2 =
             ?q2\<lparr> sideBar := (\<lambda>loc. if loc \<in> ?four then map_option sb_clear (sideBar q' loc)
                                     else sideBar q' loc) \<rparr>"
    unfolding clearSideBars_def clearSideBars_fold by (auto simp: fun_eq_iff)
  have outs: "concat (map (\<lambda>loc. case sideBar (clearSideBars ?q2) loc of
                                 None \<Rightarrow> []
                               | Some sb \<Rightarrow> fst (restoreSideBar env (?names loc) sb))
                       ?locs) = []"
    unfolding c using restored
    by (simp split: option.splits)
  have bars: "(\<lambda>loc. if loc \<in> set ?locs
                      then map_option (\<lambda>sb. snd (restoreSideBar env (?names loc) sb))
                             (sideBar (clearSideBars ?q2) loc)
                      else sideBar (clearSideBars ?q2) loc)
              = (\<lambda>loc. if loc \<in> ?four
                        then map_option (\<lambda>sb. sb\<lparr> m_dockWidgets := minimizedAt q loc \<rparr>) (sideBar q' loc)
                        else sideBar q' loc)"
  proof (rule ext)
    fix loc
    show "(if loc \<in> set ?locs
                      then map_option (\<lambda>sb. snd (restoreSideBar env (?names loc) sb))
                             (sideBar (clearSideBars ?q2) loc)
                      else sideBar (clearSideBars ?q2) loc)
              = (if loc \<in> ?four
                        then map_option (\<lambda>sb. sb\<lparr> m_dockWidgets := minimizedAt q loc \<rparr>) (sideBar q' loc)
                        else sideBar q' loc)"
    proof (cases "loc \<in> ?four")
      case True
      then show ?thesis
        unfolding c four using restored [OF True]
        by (cases "sideBar q' loc") simp_all
    next
      case False
      then show ?thesis unfolding c four by simp
    qed
  qed
  have dl: "distinct ?locs" by simp
  have fold: "fold (deserialize_body env ?mw) ?locs ([], clearSideBars ?q2) =
                ([], ?q2\<lparr> sideBar := (\<lambda>loc. if loc \<in> ?four
                        then map_option (\<lambda>sb. sb\<lparr> m_dockWidgets := minimizedAt q loc \<rparr>) (sideBar q' loc)
                        else sideBar q' loc) \<rparr>)"
    unfolding deserialize_fold [OF dl] outs bars
    unfolding c by simp
  have same: "q'\<lparr> affinities := affinities q \<rparr> = q'" if "affinities q' = affinities q"
    using that [symmetric] by simp
  show ?thesis
  proof (cases "affinities q' = affinities q")
    case True
    have e: "q'\<lparr> dropArea := ?layout \<rparr> = ?q2"
      using same [OF True] by simp
    show ?thesis
      unfolding deserialize_def
      using opts True fold
      by (simp add: serialize_fields Let_def split_def e)
  next
    case False
    show ?thesis
      unfolding deserialize_def
      using opts False fold
      by (simp add: serialize_fields Let_def split_def)
  qed
qed


lemma example_registry:
  "\<forall>loc \<in> {SideBarLocation_North, SideBarLocation_East, SideBarLocation_West, SideBarLocation_South}.
      \<forall>d \<in> set (minimizedAt exampleMainWindow loc).
         dockByName exampleCollaborators (uniqueName exampleCollaborators d) = Some d"
  by (simp add: minimizedAt_def exampleMainWindow_def exampleSideBar_def exampleCollaborators_def)

lemma example_options: "m_options exampleLiveWindow = m_options exampleMainWindow"
  by (simp add: exampleLiveWindow_def exampleMainWindow_def)

text \<open>
  Claim C4 as stated does not hold for the geometry: \<open>deserialize\<close> never writes it.
  A snapshot of a window of 800 by 600 pixels at the origin, restored onto a live
  window with the same options that has since been moved and resized, leaves the live
  window's geometry as it is.
\<close>

theorem deserialize_geometry_counterexample:
  "mw_options (serialize exampleCollaborators exampleMainWindow) = m_options exampleLiveWindow
   \<and> mw_geometry (serialize exampleCollaborators exampleMainWindow)
       = \<lparr> x1 = 0, y1 = 0, x2 = 799, y2 = 599 \<rparr>
   \<and> window_geometry (snd (snd (deserialize exampleCollaborators
         (serialize exampleCollaborators exampleMainWindow) exampleLiveWindow)))
       = \<lparr> x1 = 50, y1 = 60, x2 = 1049, y2 = 759 \<rparr>"
  unfolding deserialize_snapshot [OF example_options example_registry] serialize_fields
  by (simp add: exampleLiveWindow_def exampleMainWindow_def)


text \<open>
  C4, amended. \<open>serialize\<close> captures the options, the geometry, the affinities, the
  layout and, for each location, the ordered names of a side bar that is not empty.
  When such a snapshot of a main window is restored onto a live main window with the
  same options, and the registry finds the minimized dock widgets of the snapshot under
  their names, \<open>deserialize\<close> overwrites the affinities with those of the snapshot
  (with a warning if they differed), clears every side bar of the live window and
  repopulates it, in order, from the snapshot's list: affinities and the ordered
  contents of each side bar are those of the window the snapshot was taken from, at
  every location where both windows have the side bar. The geometry is not restored: it
  stays that of the live window, and so equals the snapshot's only if it has not changed
  since; apart from affinities, side bars and the drop area the live window is
  untouched.
\<close>

theorem deserialize_restores_snapshot:
  assumes "m_options q' = m_options q"
    and "\<forall>loc \<in> {SideBarLocation_North, SideBarLocation_East, SideBarLocation_West, SideBarLocation_South}.
           \<forall>d \<in> set (minimizedAt q loc). dockByName env (uniqueName env d) = Some d"
  shows "mw_options (serialize env q) = m_options q
       \<and> mw_geometry (serialize env q) = window_geometry q
       \<and> mw_affinities (serialize env q) = affinities q
       \<and> mw_multiSplitterLayout (serialize env q) = dropArea_serialize env (dropArea q)
       \<and> (\<forall>loc \<in> {SideBarLocation_North, SideBarLocation_East, SideBarLocation_West, SideBarLocation_South}.
            mw_dockWidgetsPerSideBar (serialize env q) loc =
              (case sideBar q loc of
                 Some sb \<Rightarrow> if m_dockWidgets sb \<noteq> []
                            then Some (map (uniqueName env) (m_dockWidgets sb)) else None
               | None \<Rightarrow> None))
       \<and> (\<exists>out success q''.
            deserialize env (serialize env q) q' = (out, success, q'')
            \<and> out = (if affinities q' \<noteq> affinities q then [qWarning ''Affinty name changed''] else [])
            \<and> affinities q'' = affinities q
            \<and> (\<forall>loc \<in> {SideBarLocation_North, SideBarLocation_East, SideBarLocation_West, SideBarLocation_South}.
                  map_option m_dockWidgets (sideBar q'' loc)
                    = map_option (\<lambda>sb. minimizedAt q loc) (sideBar q' loc))
            \<and> ((\<forall>loc \<in> {SideBarLocation_North, SideBarLocation_East, SideBarLocation_West, SideBarLocation_South}.
                   (sideBar q' loc = None) = (sideBar q loc = None))
                 \<longrightarrow> (\<forall>loc \<in> {SideBarLocation_North, SideBarLocation_East, SideBarLocation_West, SideBarLocation_South}.
                        map_option m_dockWidgets (sideBar q'' loc)
                          = map_option m_dockWidgets (sideBar q loc)))
            \<and> window_geometry q'' = window_geometry q'
            \<and> q'' = q'\<lparr> affinities := affinities q'', dropArea := dropArea q'',
                         sideBar := sideBar q'' \<rparr>)"
proof -
  let ?four = "{SideBarLocation_North, SideBarLocation_East, SideBarLocation_West, SideBarLocation_South}"
  let ?bars = "\<lambda>loc. if loc \<in> ?four
                      then map_option (\<lambda>sb. sb\<lparr> m_dockWidgets := minimizedAt q loc \<rparr>) (sideBar q' loc)
                      else sideBar q' loc"
  let ?q'' = "q'\<lparr> affinities := affinities q,
                  dropArea := snd (dropArea_deserialize env (dropArea_serialize env (dropArea q)) (dropArea q')),
                  sideBar := ?bars \<rparr>"
  note d = deserialize_snapshot [OF assms]
  have 1: "map_option m_dockWidgets (sideBar ?q'' loc)
             = map_option (\<lambda>sb. minimizedAt q loc) (sideBar q' loc)" if "loc \<in> ?four" for loc
    using that by (cases "sideBar q' loc") auto
  have 2: "map_option m_dockWidgets (sideBar ?q'' loc) = map_option m_dockWidgets (sideBar q loc)"
    if "loc \<in> ?four" and "\<forall>loc \<in> ?four. (sideBar q' loc = None) = (sideBar q loc = None)" for loc
  proof -
    from that(2) that(1) have n: "(sideBar q' loc = None) = (sideBar q loc = None)"
      by (rule bspec)
    show ?thesis
      unfolding 1 [OF that(1)] using n
      by (cases "sideBar q' loc"; cases "sideBar q loc") (simp_all add: minimizedAt_def)
  qed
  have "\<exists>out success q''.
            deserialize env (serialize env q) q' = (out, success, q'')
            \<and> out = (if affinities q' \<noteq> affinities q then [qWarning ''Affinty name changed''] else [])
            \<and> affinities q'' = affinities q
            \<and> (\<forall>loc \<in> ?four. map_option m_dockWidgets (sideBar q'' loc)
                    = map_option (\<lambda>sb. minimizedAt q loc) (sideBar q' loc))
            \<and> ((\<forall>loc \<in> ?four. (sideBar q' loc = None) = (sideBar q loc = None))
                 \<longrightarrow> (\<forall>loc \<in> ?four. map_option m_dockWidgets (sideBar q'' loc)
                          = map_option m_dockWidgets (sideBar q loc)))
            \<and> window_geometry q'' = window_geometry q'
            \<and> q'' = q'\<lparr> affinities := affinities q'', dropArea := dropArea q'',
                         sideBar := sideBar q'' \<rparr>"
    apply (rule exI [of _ "if affinities q' \<noteq> affinities q then [qWarning ''Affinty name changed''] else []"])
    apply (rule exI [of _ "fst (dropArea_deserialize env (dropArea_serialize env (dropArea q)) (dropArea q'))"])
    apply (rule exI [of _ ?q''])
    apply (intro conjI)
          apply (rule d)
         apply (rule refl)
        apply simp
       using 1 apply blast
      using 2 apply blast
     apply simp
    apply simp
    done
  with serialize_fields [of env q] serialize_sideBars [of _ env q] show ?thesis
    by blast
qed

theorem deserialize_restores_snapshot_witness:
  "\<exists>success q''.
      deserialize exampleCollaborators (serialize exampleCollaborators exampleMainWindow)
        exampleLiveWindow = ([qWarning ''Affinty name changed''], success, q'')
      \<and> affinities q'' = [''a'']
      \<and> map_option m_dockWidgets (sideBar q'' SideBarLocation_South) = Some [1, 2]
      \<and> map_option m_dockWidgets (sideBar q'' SideBarLocation_North) = Some []
      \<and> window_geometry q'' = \<lparr> x1 = 50, y1 = 60, x2 = 1049, y2 = 759 \<rparr>"
proof -
  from deserialize_restores_snapshot [OF example_options example_registry]
  obtain out success q'' where
    d: "deserialize exampleCollaborators (serialize exampleCollaborators exampleMainWindow)
          exampleLiveWindow = (out, success, q'')"
    and o: "out = (if affinities exampleLiveWindow \<noteq> affinities exampleMainWindow
                   then [qWarning ''Affinty name changed''] else [])"
    and a: "affinities q'' = affinities exampleMainWindow"
    and b: "\<forall>loc \<in> {SideBarLocation_North, SideBarLocation_East, SideBarLocation_West, SideBarLocation_South}.
                  map_option m_dockWidgets (sideBar q'' loc)
                    = map_option (\<lambda>sb. minimizedAt exampleMainWindow loc) (sideBar exampleLiveWindow loc)"
    and g: "window_geometry q'' = window_geometry exampleLiveWindow"
    by blast
  have o': "out = [qWarning ''Affinty name changed'']"
    unfolding o by (simp add: exampleLiveWindow_def exampleMainWindow_def)
  have a': "affinities q'' = [''a'']"
    unfolding a by (simp add: exampleMainWindow_def)
  have s: "map_option m_dockWidgets (sideBar q'' SideBarLocation_South) = Some [1, 2]"
    using b by (simp add: minimizedAt_def exampleLiveWindow_def exampleMainWindow_def exampleSideBar_def)
  have n: "map_option m_dockWidgets (sideBar q'' SideBarLocation_North) = Some []"
    using b by (simp add: minimizedAt_def exampleLiveWindow_def exampleMainWindow_def exampleSideBar_def)
  have g': "window_geometry q'' = \<lparr> x1 = 50, y1 = 60, x2 = 1049, y2 = 759 \<rparr>"
    unfolding g by (simp add: exampleLiveWindow_def)
  from d o' a' s n g' show ?thesis by blast
qed


section \<open>The overlay invariant\<close>

lemma overlayConsistent_views:
  "overlayConsistent q = viewsOK (views q) (nextFrameId q) (m_overlayedDockWidget q)"
proof -
  have 1: "map fst (map frameView fs) = map frameId fs" for fs
    by (simp add: frameView_def comp_def)
  have 2: "map (snd \<circ> snd) (map frameView fs) = map frameWidgets fs" for fs
    by (simp add: frameView_def comp_def)
  have 3: "map (snd \<circ> snd) (filter (fst \<circ> snd) (map frameView fs))
             = map frameWidgets (filter isOverlayed fs)" for fs
    by (induction fs) (simp_all add: frameView_def)
  have 4: "(\<forall>v \<in> set (map frameView fs). fst v < n) = list_all (\<lambda>f. frameId f < n) fs" for fs n
    by (simp add: frameView_def list_all_iff)
  show ?thesis
    unfolding overlayConsistent_def viewsOK_def views_def overlayFrames_def 1 2 3 4 ..
qed

lemma rmV_ids [simp]: "map fst (rmV d vs) = map fst vs"
  by (induction vs) (auto simp: rmV_def)

lemma rmV_set_ids [simp]: "fst ` set (rmV d vs) = fst ` set vs"
  by (metis rmV_ids set_map)

lemma rmV_bound: "\<forall>v \<in> set vs. fst v < n \<Longrightarrow> \<forall>v \<in> set (rmV d vs). fst v < (n::nat)"
  by (metis imageE image_eqI rmV_set_ids)

lemma rmV_overlay: "filter (fst \<circ> snd) (rmV d vs) = rmV d (filter (fst \<circ> snd) vs)"
  by (induction vs) (auto simp: rmV_def)

lemma rmV_widgets: "map (snd \<circ> snd) (rmV d vs) = map (removeAll d) (map (snd \<circ> snd) vs)"
  by (induction vs) (auto simp: rmV_def)

lemma removeAll_concat: "removeAll d (concat xss) = concat (map (removeAll d) xss)"
  by (induction xss) simp_all

lemma rmV_concat:
  "concat (map (snd \<circ> snd) (rmV d vs)) = removeAll d (concat (map (snd \<circ> snd) vs))"
  by (simp only: rmV_widgets removeAll_concat)

lemma rmV_append [simp]: "rmV d (xs @ ys) = rmV d xs @ rmV d ys"
  by (simp add: rmV_def)

lemma same_frame:
  assumes "distinct (concat (map (snd \<circ> snd) vs))"
    and "v \<in> set vs" "v' \<in> set vs"
    and "d \<in> set (snd (snd v))" "d \<in> set (snd (snd v'))"
  shows "v = v'"
  using assms
proof (induction vs)
  case Nil
  then show ?case by simp
next
  case (Cons a vs)
  then show ?case by (auto simp: disjoint_iff)
qed


lemma distinct_concat_filter:
  "distinct (concat (map f xs)) \<Longrightarrow> distinct (concat (map f (filter P xs)))"
  by (induction xs) auto

lemma viewsOK_rmV:
  assumes "viewsOK vs n slot" and "slot \<noteq> Some d"
  shows "viewsOK (rmV d vs) n slot"
proof -
  from assms(1) have a: "distinct (map fst vs)" "\<forall>v \<in> set vs. fst v < n"
    "distinct (concat (map (snd \<circ> snd) vs))"
    "map (snd \<circ> snd) (filter (fst \<circ> snd) vs) = (case slot of None \<Rightarrow> [] | Some d \<Rightarrow> [[d]])"
    by (simp_all add: viewsOK_def)
  have 2: "\<forall>v \<in> set (rmV d vs). fst v < n"
    using a(2) by (rule rmV_bound)
  have 3: "distinct (concat (map (snd \<circ> snd) (rmV d vs)))"
    unfolding rmV_concat using a(3) by (rule distinct_removeAll)
  have 4: "map (snd \<circ> snd) (filter (fst \<circ> snd) (rmV d vs))
             = (case slot of None \<Rightarrow> [] | Some d \<Rightarrow> [[d]])"
    unfolding rmV_overlay rmV_widgets a(4) using assms(2) by (cases slot) auto
  from a(1) 2 3 4 show ?thesis by (simp add: viewsOK_def)
qed

lemma viewsOK_new_frame:
  assumes "viewsOK vs n slot" and "slot \<noteq> Some d"
  shows "viewsOK (rmV d vs @ [(n, False, [d])]) (Suc n) slot"
proof -
  from viewsOK_rmV [OF assms] have a: "distinct (map fst (rmV d vs))"
    "\<forall>v \<in> set (rmV d vs). fst v < n"
    "distinct (concat (map (snd \<circ> snd) (rmV d vs)))"
    "map (snd \<circ> snd) (filter (fst \<circ> snd) (rmV d vs)) = (case slot of None \<Rightarrow> [] | Some d \<Rightarrow> [[d]])"
    by (simp_all add: viewsOK_def)
  have n: "n \<notin> fst ` set vs" using a(2) rmV_set_ids [of d vs] by (metis imageE less_irrefl)
  have d: "d \<notin> set (concat (map (snd \<circ> snd) (rmV d vs)))"
    unfolding rmV_concat by simp
  have 1: "distinct (map fst (rmV d vs @ [(n, False, [d])]))"
    using a(1) n by simp
  have 2: "\<forall>v \<in> set (rmV d vs @ [(n, False, [d])]). fst v < Suc n"
    using a(2) by auto
  have 3: "distinct (concat (map (snd \<circ> snd) (rmV d vs @ [(n, False, [d])])))"
    using a(3) d by simp
  have 4: "map (snd \<circ> snd) (filter (fst \<circ> snd) (rmV d vs @ [(n, False, [d])]))
             = (case slot of None \<Rightarrow> [] | Some d \<Rightarrow> [[d]])"
    using a(4) by simp
  from 1 2 3 4 show ?thesis unfolding viewsOK_def by blast
qed

lemma viewsOK_new_overlay:
  assumes "viewsOK vs n None"
  shows "viewsOK (rmV d vs @ [(n, True, [d])]) (Suc n) (Some d)"
proof -
  have "None \<noteq> Some d" by simp
  from viewsOK_rmV [OF assms this] have a: "distinct (map fst (rmV d vs))"
    "\<forall>v \<in> set (rmV d vs). fst v < n"
    "distinct (concat (map (snd \<circ> snd) (rmV d vs)))"
    "map (snd \<circ> snd) (filter (fst \<circ> snd) (rmV d vs)) = []"
    by (simp_all add: viewsOK_def)
  have n: "n \<notin> fst ` set vs" using a(2) rmV_set_ids [of d vs] by (metis imageE less_irrefl)
  have d: "d \<notin> set (concat (map (snd \<circ> snd) (rmV d vs)))"
    unfolding rmV_concat by simp
  have 1: "distinct (map fst (rmV d vs @ [(n, True, [d])]))"
    using a(1) n by simp
  have 2: "\<forall>v \<in> set (rmV d vs @ [(n, True, [d])]). fst v < Suc n"
    using a(2) by auto
  have 3: "distinct (concat (map (snd \<circ> snd) (rmV d vs @ [(n, True, [d])])))"
    using a(3) d by simp
  have 4: "map (snd \<circ> snd) (filter (fst \<circ> snd) (rmV d vs @ [(n, True, [d])]))
             = (case Some d of None \<Rightarrow> [] | Some d \<Rightarrow> [[d]])"
    using a(4) by simp
  from 1 2 3 4 show ?thesis unfolding viewsOK_def by blast
qed

lemma viewsOK_cleared:
  assumes "viewsOK vs n (Some d)"
    and "v \<in> set vs" and "d \<in> set (snd (snd v))"
  shows "viewsOK (filter (\<lambda>w. fst w \<noteq> fst v) (rmV d vs)) n None"
proof -
  from assms(1) have a: "distinct (map fst vs)" "\<forall>v \<in> set vs. fst v < n"
    "distinct (concat (map (snd \<circ> snd) vs))"
    "map (snd \<circ> snd) (filter (fst \<circ> snd) vs) = [[d]]"
    by (simp_all add: viewsOK_def)
  from a(4) obtain v0 where v0: "filter (fst \<circ> snd) vs = [v0]" "snd (snd v0) = [d]"
    by (cases "filter (fst \<circ> snd) vs") auto
  then have "v0 \<in> set (filter (fst \<circ> snd) vs)" by simp
  then have v0in: "v0 \<in> set vs" by simp
  have "v = v0"
    by (rule same_frame [OF a(3) assms(2) v0in assms(3)]) (simp add: v0(2))
  let ?vs' = "filter (\<lambda>w. fst w \<noteq> fst v) (rmV d vs)"
  have 1: "distinct (map fst ?vs')"
    using a(1) by (simp add: distinct_map_filter)
  have 2: "\<forall>w \<in> set ?vs'. fst w < n"
    using rmV_bound [OF a(2), of d] by simp
  have "distinct (concat (map (snd \<circ> snd) (rmV d vs)))"
    unfolding rmV_concat using a(3) by (rule distinct_removeAll)
  then have 3: "distinct (concat (map (snd \<circ> snd) ?vs'))"
    by (rule distinct_concat_filter)
  have "filter (fst \<circ> snd) ?vs' = filter (\<lambda>w. fst w \<noteq> fst v) (rmV d (filter (fst \<circ> snd) vs))"
    unfolding rmV_overlay [symmetric] by (simp add: conj_commute)
  also have "\<dots> = []"
    unfolding v0(1) using \<open>v = v0\<close> by (cases v0) (simp add: rmV_def)
  finally have 4: "map (snd \<circ> snd) (filter (fst \<circ> snd) ?vs') = (case None of None \<Rightarrow> [] | Some d \<Rightarrow> [[d]])"
    by simp
  from 1 2 3 4 show ?thesis unfolding viewsOK_def by blast
qed


lemma views_setParent_null [simp]: "views (dw_setParent_null d q) = rmV d (views q)"
  by (simp add: views_def dw_setParent_null_def rmV_def frameView_def)

lemma views_delete_frame [simp]:
  "views (delete_frame fid q) = filter (\<lambda>v. fst v \<noteq> fid) (views q)"
  by (simp add: views_def delete_frame_def filter_map comp_def frameView_def)

lemma views_frame_setGeometry [simp]: "views (frame_setGeometry fid r q) = views q"
  by (simp add: views_def frame_setGeometry_def frameView_def)

lemma views_frame_show [simp]: "views (frame_show fid q) = views q"
  by (simp add: views_def frame_show_def frameView_def)

lemma views_slot_update [simp]: "views (q\<lparr> m_overlayedDockWidget := x \<rparr>) = views q"
  by (simp add: views_def)

lemma views_sideBar_update [simp]: "views (q\<lparr> sideBar := x \<rparr>) = views q"
  by (simp add: views_def)

lemma views_createFrame:
  "views (snd (createFrame b q)) = views q @ [(nextFrameId q, b, [])]"
  "fst (createFrame b q) = nextFrameId q"
  "nextFrameId (snd (createFrame b q)) = Suc (nextFrameId q)"
  "m_overlayedDockWidget (snd (createFrame b q)) = m_overlayedDockWidget q"
  "sideBar (snd (createFrame b q)) = sideBar q"
  by (simp_all add: views_def createFrame_def frameView_def)

lemma views_frame_addWidget:
  "views (frame_addWidget fid d q) =
     map (\<lambda>(i, ov, ws). (i, ov, if i = fid then removeAll d ws @ [d] else removeAll d ws)) (views q)"
  by (simp add: views_def frame_addWidget_def frameView_def)

lemma addWidget_last:
  assumes "\<forall>v \<in> set vs. fst v \<noteq> n"
  shows "map (\<lambda>(i, ov, ws). (i, ov, if i = n then removeAll d ws @ [d] else removeAll d ws))
           (vs @ [(n, b, [])]) = rmV d vs @ [(n, b, [d])]"
  using assms by (induction vs) (auto simp: rmV_def)

lemma unchanged_frame_ops [simp]:
  "m_overlayedDockWidget (dw_setParent_null d q) = m_overlayedDockWidget q"
  "m_overlayedDockWidget (delete_frame fid q) = m_overlayedDockWidget q"
  "m_overlayedDockWidget (frame_addWidget fid d q) = m_overlayedDockWidget q"
  "m_overlayedDockWidget (frame_setGeometry fid r q) = m_overlayedDockWidget q"
  "m_overlayedDockWidget (frame_show fid q) = m_overlayedDockWidget q"
  "nextFrameId (dw_setParent_null d q) = nextFrameId q"
  "nextFrameId (delete_frame fid q) = nextFrameId q"
  "nextFrameId (frame_addWidget fid d q) = nextFrameId q"
  "nextFrameId (frame_setGeometry fid r q) = nextFrameId q"
  "nextFrameId (frame_show fid q) = nextFrameId q"
  "sideBar (dw_setParent_null d q) = sideBar q"
  "sideBar (delete_frame fid q) = sideBar q"
  "sideBar (frame_addWidget fid d q) = sideBar q"
  "sideBar (frame_setGeometry fid r q) = sideBar q"
  "sideBar (frame_show fid q) = sideBar q"
  by (simp_all add: dw_setParent_null_def delete_frame_def frame_addWidget_def
      frame_setGeometry_def frame_show_def)

lemma dw_frame_Some:
  assumes "dw_frame q d = Some f"
  shows "frameView f \<in> set (views q)" "d \<in> set (snd (snd (frameView f)))"
    "fst (frameView f) = frameId f"
  using assms
  by (auto simp: dw_frame_def views_def frameView_def find_Some_iff)

lemma dw_frame_None:
  assumes "dw_frame q d = None"
  shows "d \<notin> set (concat (map (snd \<circ> snd) (views q)))"
  using assms
  by (auto simp: dw_frame_def views_def frameView_def find_None_iff)

lemma overlay_view_contains:
  assumes "viewsOK vs n (Some d)"
  shows "d \<in> set (concat (map (snd \<circ> snd) vs))"
proof -
  from assms have "map (snd \<circ> snd) (filter (fst \<circ> snd) vs) = [[d]]"
    by (simp add: viewsOK_def)
  then have "[d] \<in> set (map (snd \<circ> snd) (filter (fst \<circ> snd) vs))" by simp
  then have "[d] \<in> set (map (snd \<circ> snd) vs)" by auto
  moreover have "d \<in> set [d]" by simp
  ultimately show ?thesis unfolding set_concat by blast
qed

lemma clearSideBarOverlay_consistent:
  assumes "overlayConsistent q"
  shows "overlayConsistent (snd (clearSideBarOverlay q))"
    and "m_overlayedDockWidget (snd (clearSideBarOverlay q)) = None"
    and "sideBar (snd (clearSideBarOverlay q)) = sideBar q"
proof -
  have "overlayConsistent (snd (clearSideBarOverlay q))
      \<and> m_overlayedDockWidget (snd (clearSideBarOverlay q)) = None
      \<and> sideBar (snd (clearSideBarOverlay q)) = sideBar q"
  proof (cases "m_overlayedDockWidget q")
    case None
    with assms show ?thesis by (simp add: clearSideBarOverlay_def)
  next
    case (Some d)
    from assms have ok: "viewsOK (views q) (nextFrameId q) (Some d)"
      by (simp add: overlayConsistent_views Some)
    show ?thesis
    proof (cases "dw_frame q d")
      case None
      from dw_frame_None [OF None] overlay_view_contains [OF ok] show ?thesis by simp
    next
      case f: (Some f)
      have c: "snd (clearSideBarOverlay q) =
                 delete_frame (frameId f) ((dw_setParent_null d q)\<lparr> m_overlayedDockWidget := None \<rparr>)"
        by (simp add: clearSideBarOverlay_def Some f Let_def)
      have "viewsOK (filter (\<lambda>w. fst w \<noteq> fst (frameView f)) (rmV d (views q))) (nextFrameId q) None"
        by (rule viewsOK_cleared [OF ok dw_frame_Some(1,2) [OF f]])
      then show ?thesis
        unfolding c overlayConsistent_views
        by (simp add: dw_frame_Some(3) [OF f])
    qed
  qed
  then show "overlayConsistent (snd (clearSideBarOverlay q))"
    and "m_overlayedDockWidget (snd (clearSideBarOverlay q)) = None"
    and "sideBar (snd (clearSideBarOverlay q)) = sideBar q"
    by simp_all
qed


lemma updateOverlayGeometry_total:
  assumes "m_overlayedDockWidget q = Some d"
    and "d \<in> set (concat (map (snd \<circ> snd) (views q)))"
  shows "\<exists>out q'. updateOverlayGeometry env q = Some (out, q') \<and> views q' = views q
           \<and> m_overlayedDockWidget q' = m_overlayedDockWidget q
           \<and> nextFrameId q' = nextFrameId q \<and> sideBar q' = sideBar q"
proof (cases "sideBarForDockWidget q (Some d)")
  case None
  with assms(1) show ?thesis by (simp add: updateOverlayGeometry_def)
next
  case (Some p)
  obtain location sb where p: "p = (location, sb)" by (cases p)
  show ?thesis
  proof (cases "dw_frame q d")
    case None
    from dw_frame_None [OF None] assms(2) show ?thesis by simp
  next
    case f: (Some f)
    with assms(1) Some p show ?thesis by (simp add: updateOverlayGeometry_def)
  qed
qed

lemma addWidget_fresh:
  assumes "views q' = vs @ [(n, b, [])]" and "\<forall>v \<in> set vs. fst v < n"
  shows "views (frame_addWidget n d q') = rmV d vs @ [(n, b, [d])]"
proof -
  have "\<forall>v \<in> set vs. fst v \<noteq> n"
    using assms(2) by auto
  from addWidget_last [OF this] show ?thesis
    unfolding views_frame_addWidget assms(1) .
qed

lemma views_setFloating_false:
  assumes "\<forall>v \<in> set (views q). fst v < nextFrameId q"
  shows "views (dw_setFloating_false d q) = rmV d (views q) @ [(nextFrameId q, False, [d])]"
    and "nextFrameId (dw_setFloating_false d q) = Suc (nextFrameId q)"
    and "m_overlayedDockWidget (dw_setFloating_false d q) = m_overlayedDockWidget q"
proof -
  have e: "dw_setFloating_false d q =
             frame_show (nextFrameId q) (frame_addWidget (nextFrameId q) d (snd (createFrame False q)))"
    by (simp add: dw_setFloating_false_def split_def views_createFrame(2))
  show "views (dw_setFloating_false d q) = rmV d (views q) @ [(nextFrameId q, False, [d])]"
    unfolding e views_frame_show
    by (rule addWidget_fresh [OF views_createFrame(1) assms])
  show "nextFrameId (dw_setFloating_false d q) = Suc (nextFrameId q)"
    unfolding e by (simp add: views_createFrame(3))
  show "m_overlayedDockWidget (dw_setFloating_false d q) = m_overlayedDockWidget q"
    unfolding e by (simp add: views_createFrame(4))
qed

lemma overlayOnSideBar_consistent:
  assumes "overlayConsistent q"
  shows "\<exists>out q'. overlayOnSideBar env dw q = Some (out, q') \<and> overlayConsistent q'"
proof (cases dw)
  case None
  with assms show ?thesis by (simp add: overlayOnSideBar_def)
next
  case (Some d)
  show ?thesis
  proof (cases "sideBarForDockWidget q dw = None \<or> m_overlayedDockWidget q = dw")
    case True
    with assms Some show ?thesis
      by (auto simp: overlayOnSideBar_def split: option.splits)
  next
    case False
    let ?q1 = "snd (clearSideBarOverlay q)"
    let ?n = "nextFrameId ?q1"
    let ?q4 = "frame_addWidget (fst (createFrame True ?q1)) d
                 ((snd (createFrame True ?q1))\<lparr> m_overlayedDockWidget := Some d \<rparr>)"
    have c1: "overlayConsistent ?q1" "m_overlayedDockWidget ?q1 = None"
      using clearSideBarOverlay_consistent [OF assms] by simp_all
    then have ok1: "viewsOK (views ?q1) ?n None"
      by (simp add: overlayConsistent_views)
    then have b: "\<forall>v \<in> set (views ?q1). fst v < ?n"
      by (simp add: viewsOK_def)
    have "views ((snd (createFrame True ?q1))\<lparr> m_overlayedDockWidget := Some d \<rparr>)
            = views ?q1 @ [(?n, True, [])]"
      by (simp add: views_createFrame(1))
    from addWidget_fresh [OF this b]
    have v4: "views ?q4 = rmV d (views ?q1) @ [(?n, True, [d])]"
      unfolding views_createFrame(2) .
    have s4: "m_overlayedDockWidget ?q4 = Some d" by simp
    have n4: "nextFrameId ?q4 = Suc ?n" by (simp add: views_createFrame)
    have ok4: "viewsOK (views ?q4) (Suc ?n) (Some d)"
      unfolding v4 by (rule viewsOK_new_overlay [OF ok1])
    have "d \<in> set (concat (map (snd \<circ> snd) (views ?q4)))"
      unfolding v4 by simp
    from updateOverlayGeometry_total [OF s4 this, of env]
    obtain out2 q5 where u: "updateOverlayGeometry env ?q4 = Some (out2, q5)"
      "views q5 = views ?q4" "m_overlayedDockWidget q5 = m_overlayedDockWidget ?q4"
      "nextFrameId q5 = nextFrameId ?q4"
      by blast
    have ok5: "overlayConsistent (frame_show (fst (createFrame True ?q1)) q5)"
      unfolding overlayConsistent_views using ok4 u(2,3,4) s4 n4 by simp
    from False obtain p where sb: "sideBarForDockWidget q (Some d) = Some p"
      using Some by auto
    have "overlayOnSideBar env dw q =
            Some (fst (clearSideBarOverlay q) @ out2 @ [isOverlayedChanged d True],
                  frame_show (fst (createFrame True ?q1)) q5)"
      using False Some sb u(1)
      by (simp add: overlayOnSideBar_def Let_def split_def)
    with ok5 show ?thesis by blast
  qed
qed

lemma toggleOverlayOnSideBar_consistent:
  assumes "overlayConsistent q"
  shows "\<exists>out q'. toggleOverlayOnSideBar env dw q = Some (out, q') \<and> overlayConsistent q'"
proof -
  let ?q1 = "snd (clearSideBarOverlay q)"
  have c1: "overlayConsistent ?q1"
    using clearSideBarOverlay_consistent [OF assms] by simp
  show ?thesis
  proof (cases "m_overlayedDockWidget q = dw")
    case True
    with c1 show ?thesis
      by (cases "clearSideBarOverlay q") (simp add: toggleOverlayOnSideBar_def Let_def)
  next
    case False
    from overlayOnSideBar_consistent [OF c1, of env dw]
    obtain out2 q2 where "overlayOnSideBar env dw ?q1 = Some (out2, q2)" "overlayConsistent q2"
      by blast
    with False show ?thesis
      by (simp add: toggleOverlayOnSideBar_def Let_def split_def)
  qed
qed

lemma sideBarForDockWidget_loop_null: "sideBarForDockWidget_loop q None locs = None"
  by (induction locs) (simp_all add: containsDockWidget_def split: option.splits)

lemma sideBarForDockWidget_null: "sideBarForDockWidget q None = None"
  unfolding sideBarForDockWidget_def by (rule sideBarForDockWidget_loop_null)

lemma restoreFromSideBar_rest_consistent:
  assumes "overlayConsistent q1" and "dw = None \<or> m_overlayedDockWidget q1 \<noteq> dw"
  shows "\<exists>out q'. restoreFromSideBar_rest dw out1 q1 = Some (out, q') \<and> overlayConsistent q'"
proof (cases "sideBarForDockWidget q1 dw")
  case None
  with assms(1) show ?thesis by (simp add: restoreFromSideBar_rest_def)
next
  case (Some p)
  obtain loc sb where p: "p = (loc, sb)" by (cases p)
  from Some obtain d where d: "dw = Some d"
    using sideBarForDockWidget_null [of q1] by (cases dw) simp_all
  let ?q2 = "q1\<lparr> sideBar := (sideBar q1)(loc := Some (sb_removeDockWidget dw sb)) \<rparr>"
  have ok2: "viewsOK (views ?q2) (nextFrameId ?q2) (m_overlayedDockWidget ?q2)"
    using assms(1) unfolding overlayConsistent_views by simp
  then have b: "\<forall>v \<in> set (views ?q2). fst v < nextFrameId ?q2"
    by (simp add: viewsOK_def)
  have s2: "m_overlayedDockWidget ?q2 \<noteq> Some d" using assms(2) d by simp
  have "overlayConsistent (dw_setFloating_false d ?q2)"
    unfolding overlayConsistent_views views_setFloating_false [OF b]
    by (rule viewsOK_new_frame [OF ok2 s2])
  moreover have "sideBarForDockWidget q1 (Some d) = Some (loc, sb)"
    using Some p d by simp
  ultimately show ?thesis
    using d by (simp add: restoreFromSideBar_rest_def Let_def)
qed

lemma restoreFromSideBar_consistent:
  assumes "overlayConsistent q"
  shows "\<exists>out q'. restoreFromSideBar dw q = Some (out, q') \<and> overlayConsistent q'"
proof (cases "dw = m_overlayedDockWidget q")
  case True
  have r: "restoreFromSideBar dw q =
             restoreFromSideBar_rest dw (fst (clearSideBarOverlay q)) (snd (clearSideBarOverlay q))"
    using True by (simp add: restoreFromSideBar_def restoreFromSideBar_rest_def split_def Let_def)
  have "dw = None \<or> m_overlayedDockWidget (snd (clearSideBarOverlay q)) \<noteq> dw"
    using clearSideBarOverlay_consistent(2) [OF assms] by (cases dw) simp_all
  from restoreFromSideBar_rest_consistent [OF clearSideBarOverlay_consistent(1) [OF assms] this]
  show ?thesis unfolding r .
next
  case False
  have r: "restoreFromSideBar dw q = restoreFromSideBar_rest dw [] q"
    using False by (simp add: restoreFromSideBar_def restoreFromSideBar_rest_def)
  have "dw = None \<or> m_overlayedDockWidget q \<noteq> dw" using False by auto
  from restoreFromSideBar_rest_consistent [OF assms this]
  show ?thesis unfolding r .
qed

lemma call_consistent:
  assumes "overlayConsistent q"
  shows "\<exists>out q'. call env c q = Some (out, q') \<and> overlayConsistent q'"
proof (cases c)
  case (Call_overlayOnSideBar dw)
  then show ?thesis using overlayOnSideBar_consistent [OF assms] by simp
next
  case (Call_toggleOverlayOnSideBar dw)
  then show ?thesis using toggleOverlayOnSideBar_consistent [OF assms] by simp
next
  case Call_clearSideBarOverlay
  then show ?thesis
    using clearSideBarOverlay_consistent(1) [OF assms]
    by (cases "clearSideBarOverlay q") simp
next
  case (Call_restoreFromSideBar dw)
  then show ?thesis using restoreFromSideBar_consistent [OF assms] by simp
qed

lemma calls_consistent:
  assumes "overlayConsistent q"
  shows "\<exists>q'. calls env cs q = Some q' \<and> overlayConsistent q'"
  using assms
proof (induction cs arbitrary: q)
  case Nil
  then show ?case by simp
next
  case (Cons c cs)
  from call_consistent [OF Cons.prems, of env c]
  obtain out q1 where "call env c q = Some (out, q1)" "overlayConsistent q1" by blast
  with Cons.IH [of q1] show ?case by simp
qed

text \<open>
  C3. From a consistent main window, every sequence of calls to \<open>overlayOnSideBar\<close>,
  \<open>toggleOverlayOnSideBar\<close>, \<open>clearSideBarOverlay\<close> and \<open>restoreFromSideBar\<close> runs to
  completion and ends in a consistent main window: at most one overlay frame exists and
  at most one panel is overlayed, namely the one in \<open>m_overlayedDockWidget\<close>; an
  operation that sets a new overlayed panel has deleted the frame of the previous one.
\<close>

theorem at_most_one_overlay:
  assumes "overlayConsistent q"
  shows "\<exists>q'. calls env cs q = Some q' \<and> overlayConsistent q'
           \<and> length (overlayFrames q') \<le> 1
           \<and> length (overlayedPanels q') \<le> 1
           \<and> overlayedPanels q' = (case m_overlayedDockWidget q' of None \<Rightarrow> [] | Some d \<Rightarrow> [d])"
proof -
  from calls_consistent [OF assms, of env cs]
  obtain q' where q': "calls env cs q = Some q'" "overlayConsistent q'" by blast
  from q'(2) have m: "map frameWidgets (overlayFrames q') =
          (case m_overlayedDockWidget q' of None \<Rightarrow> [] | Some d \<Rightarrow> [[d]])"
    by (simp add: overlayConsistent_def)
  have "length (overlayFrames q') = length (map frameWidgets (overlayFrames q'))" by simp
  also have "\<dots> \<le> 1" unfolding m by (simp split: option.splits)
  finally have 1: "length (overlayFrames q') \<le> 1" .
  have 2: "overlayedPanels q' = (case m_overlayedDockWidget q' of None \<Rightarrow> [] | Some d \<Rightarrow> [d])"
    unfolding overlayedPanels_def m by (simp split: option.splits)
  have 3: "length (overlayedPanels q') \<le> 1"
    unfolding 2 by (simp split: option.splits)
  from q' 1 2 3 show ?thesis by blast
qed


theorem at_most_one_overlay_witness:
  "\<exists>q'. calls exampleCollaborators
           [Call_overlayOnSideBar (Some 1), Call_overlayOnSideBar (Some 2),
            Call_toggleOverlayOnSideBar (Some 1), Call_restoreFromSideBar (Some 1),
            Call_clearSideBarOverlay]
           exampleMainWindow = Some q'
         \<and> overlayConsistent q'
         \<and> length (overlayFrames q') \<le> 1
         \<and> length (overlayedPanels q') \<le> 1
         \<and> overlayedPanels q' = (case m_overlayedDockWidget q' of None \<Rightarrow> [] | Some d \<Rightarrow> [d])"
  by (rule at_most_one_overlay)
     (simp add: overlayConsistent_def overlayFrames_def exampleMainWindow_def)

end
